theory Spec2Isabelle
  imports Complex_Main
begin

section \<open>Python values and built-in operations\<close>

text \<open>
  The repository holds two Streamlit programs: \<^verbatim>\<open>src/app.py\<close> (arithmetic sequences only)
  and \<^verbatim>\<open>src/unnamed/part_000\<close> (arithmetic and geometric sequences). Constants translated
  from \<^verbatim>\<open>src/app.py\<close> carry the prefix \<open>app_\<close>; constants translated from
  \<^verbatim>\<open>src/unnamed/part_000\<close> keep the source's names.

  Exceptions are values: a function whose body contains an operation that can raise
  returns \<open>error + 'a\<close>, with \<open>Inl\<close> for the exception.
\<close>

datatype error = ZeroDivisionError string | OverflowError string | ValueError string

subsection \<open>Floats\<close>

text \<open>
  A Python \<^verbatim>\<open>float\<close> is a finite value, an infinity or a NaN. The inputs of the program
  (first term, common difference, common ratio) are finite and are \<^typ>\<open>real\<close>s; the
  results of its float operations are values of \<open>pyfloat\<close>.

  The arithmetic is a parameter of every function that computes with floats. In
  \<open>Binary64\<close>, the arithmetic of the program as it runs, a result whose exact value has
  magnitude \<open>2 ^ 1024 - 2 ^ 970\<close> or more (it would round beyond the largest double)
  overflows: \<^verbatim>\<open>+\<close>, \<^verbatim>\<open>-\<close>, \<^verbatim>\<open>*\<close> and \<^verbatim>\<open>/\<close> then give an infinity, and \<^verbatim>\<open>**\<close> raises
  \<^verbatim>\<open>OverflowError\<close>. In \<open>Exact\<close>, exact arithmetic, nothing overflows. In both, a result
  that does not overflow is its exact value: rounding to 53 bits is not part of the model.
\<close>

datatype arithmetic = Exact | Binary64

definition overflow_threshold :: real where
  "overflow_threshold = 2 ^ 1024 - 2 ^ 970"

fun overflows :: "arithmetic \<Rightarrow> real \<Rightarrow> bool" where
  "overflows Exact x = False"
| "overflows Binary64 x = (overflow_threshold \<le> \<bar>x\<bar>)"

datatype pyfloat = Finite real | PosInf | NegInf | NaN

fun is_finite :: "pyfloat \<Rightarrow> bool" where
  "is_finite (Finite x) = True"
| "is_finite PosInf = False"
| "is_finite NegInf = False"
| "is_finite NaN = False"

text \<open>The float that an arithmetic operation with exact result \<open>x\<close> returns.\<close>

definition to_float :: "arithmetic \<Rightarrow> real \<Rightarrow> pyfloat" where
  "to_float ar x = (if overflows ar x then (if 0 < x then PosInf else NegInf) else Finite x)"

fun fneg :: "pyfloat \<Rightarrow> pyfloat" where
  "fneg (Finite x) = Finite (- x)"
| "fneg PosInf = NegInf"
| "fneg NegInf = PosInf"
| "fneg NaN = NaN"

text \<open>\<^verbatim>\<open>x + y\<close> and \<^verbatim>\<open>x - y\<close> on floats (they do not raise).\<close>

fun fadd :: "arithmetic \<Rightarrow> pyfloat \<Rightarrow> pyfloat \<Rightarrow> pyfloat" where
  "fadd ar (Finite x) (Finite y) = to_float ar (x + y)"
| "fadd ar NaN y = NaN"
| "fadd ar x NaN = NaN"
| "fadd ar PosInf NegInf = NaN"
| "fadd ar NegInf PosInf = NaN"
| "fadd ar PosInf y = PosInf"
| "fadd ar x PosInf = PosInf"
| "fadd ar NegInf y = NegInf"
| "fadd ar x NegInf = NegInf"

definition fsub :: "arithmetic \<Rightarrow> pyfloat \<Rightarrow> pyfloat \<Rightarrow> pyfloat" where
  "fsub ar x y = fadd ar x (fneg y)"

text \<open>\<^verbatim>\<open>x * y\<close> on floats (it does not raise).\<close>

fun fmul :: "arithmetic \<Rightarrow> pyfloat \<Rightarrow> pyfloat \<Rightarrow> pyfloat" where
  "fmul ar (Finite x) (Finite y) = to_float ar (x * y)"
| "fmul ar NaN y = NaN"
| "fmul ar x NaN = NaN"
| "fmul ar (Finite x) y =
     (if x = 0 then NaN else if (0 < x) = (y = PosInf) then PosInf else NegInf)"
| "fmul ar x (Finite y) =
     (if y = 0 then NaN else if (0 < y) = (x = PosInf) then PosInf else NegInf)"
| "fmul ar x y = (if x = y then PosInf else NegInf)"

text \<open>\<^verbatim>\<open>x / y\<close> on floats: a zero divisor raises.\<close>

fun fdiv :: "arithmetic \<Rightarrow> pyfloat \<Rightarrow> pyfloat \<Rightarrow> error + pyfloat" where
  "fdiv ar x (Finite y) =
     (if y = 0 then Inl (ZeroDivisionError ''float division by zero'')
      else Inr (case x of
                  Finite u \<Rightarrow> to_float ar (u / y)
                | PosInf \<Rightarrow> if 0 < y then PosInf else NegInf
                | NegInf \<Rightarrow> if 0 < y then NegInf else PosInf
                | NaN \<Rightarrow> NaN))"
| "fdiv ar NaN y = Inr NaN"
| "fdiv ar x NaN = Inr NaN"
| "fdiv ar (Finite x) y = Inr (Finite 0)"
| "fdiv ar x y = Inr NaN"

text \<open>\<^verbatim>\<open>x < y\<close> on floats: every comparison with a NaN is false.\<close>

fun fless :: "pyfloat \<Rightarrow> pyfloat \<Rightarrow> bool" where
  "fless (Finite x) (Finite y) = (x < y)"
| "fless NaN y = False"
| "fless x NaN = False"
| "fless x NegInf = False"
| "fless NegInf y = True"
| "fless PosInf y = False"
| "fless x PosInf = True"

text \<open>
  \<^verbatim>\<open>x ** k\<close> for a finite float \<open>x\<close> and an int \<open>k\<close>: a zero base with a negative exponent
  raises \<^verbatim>\<open>ZeroDivisionError\<close>, and a result that overflows raises \<^verbatim>\<open>OverflowError\<close>.
\<close>

definition range_error :: string where
  "range_error = ''(34, '' @ [CHR 0x27] @ ''Numerical result out of range'' @ [CHR 0x27] @ '')''"

definition py_pow :: "arithmetic \<Rightarrow> real \<Rightarrow> int \<Rightarrow> error + pyfloat" where
  "py_pow ar x k =
     (if k < 0 \<and> x = 0
      then Inl (ZeroDivisionError ''0.0 cannot be raised to a negative power'')
      else
        (let v = (if k < 0 then 1 / x ^ nat (- k) else x ^ nat k)
         in if overflows ar v then Inl (OverflowError range_error) else Inr (Finite v)))"

text \<open>
  \<^verbatim>\<open>int(x)\<close> for a float \<open>x\<close>: truncation towards zero; an infinity and a NaN raise.
\<close>

definition truncation :: "real \<Rightarrow> int" where
  "truncation v = (if 0 \<le> v then \<lfloor>v\<rfloor> else \<lceil>v\<rceil>)"

definition py_int :: "pyfloat \<Rightarrow> error + int" where
  "py_int x =
     (case x of
        Finite v \<Rightarrow> Inr (truncation v)
      | PosInf \<Rightarrow> Inl (OverflowError ''cannot convert float infinity to integer'')
      | NegInf \<Rightarrow> Inl (OverflowError ''cannot convert float infinity to integer'')
      | NaN \<Rightarrow> Inl (ValueError ''cannot convert float NaN to integer''))"

text \<open>
  The float of an int. The ints that the program converts are a term count, a term count
  less one, or a loop index below the term count; their conversion is taken as exact.
\<close>

definition float_of_int :: "int \<Rightarrow> pyfloat" where
  "float_of_int k = Finite (of_int k)"

text \<open>\<^verbatim>\<open>range(n)\<close>: the integers \<open>0, 1, ..., n - 1\<close>; empty when \<open>n \<le> 0\<close>.\<close>

definition py_range :: "int \<Rightarrow> int list" where
  "py_range n = map int [0..<nat n]"

text \<open>\<^verbatim>\<open>sum(xs)\<close>: starts from \<open>0\<close> and adds the elements from left to right.\<close>

definition py_sum :: "arithmetic \<Rightarrow> pyfloat list \<Rightarrow> pyfloat" where
  "py_sum ar xs = foldl (fadd ar) (Finite 0) xs"

text \<open>
  \<^verbatim>\<open>max(xs)\<close> and \<^verbatim>\<open>min(xs)\<close>: the first element, replaced by each later element that is
  greater (smaller). The script calls them on lists of two or more terms.
\<close>

definition py_max :: "pyfloat list \<Rightarrow> pyfloat" where
  "py_max xs = foldl (\<lambda>m x. if fless m x then x else m) (hd xs) (tl xs)"

definition py_min :: "pyfloat list \<Rightarrow> pyfloat" where
  "py_min xs = foldl (\<lambda>m x. if fless x m then x else m) (hd xs) (tl xs)"

section \<open>Sequence generators\<close>

text \<open>
  \<^verbatim>\<open>generate_arithmetic_sequence\<close> of \<^verbatim>\<open>src/unnamed/part_000\<close> (lines 4-24). The loop
  appends one term per element of \<^verbatim>\<open>range(num_terms)\<close>.
\<close>

definition generate_arithmetic_sequence ::
  "arithmetic \<Rightarrow> real \<Rightarrow> real \<Rightarrow> int \<Rightarrow> pyfloat list" where
  "generate_arithmetic_sequence ar first_term common_difference num_terms =
     (if num_terms \<le> 0 then []
      else fold (\<lambda>i sequence.
                   sequence @ [fadd ar (Finite first_term)
                                 (fmul ar (float_of_int i) (Finite common_difference))])
             (py_range num_terms) [])"

text \<open>\<^verbatim>\<open>generate_arithmetic_sequence\<close> of \<^verbatim>\<open>src/app.py\<close> (lines 3-23).\<close>

definition app_generate_arithmetic_sequence ::
  "arithmetic \<Rightarrow> real \<Rightarrow> real \<Rightarrow> int \<Rightarrow> pyfloat list" where
  "app_generate_arithmetic_sequence ar first_term common_difference num_terms =
     (if num_terms \<le> 0 then []
      else fold (\<lambda>i sequence.
                   sequence @ [fadd ar (Finite first_term)
                                 (fmul ar (float_of_int i) (Finite common_difference))])
             (py_range num_terms) [])"

text \<open>
  \<^verbatim>\<open>generate_geometric_sequence\<close> of \<^verbatim>\<open>src/unnamed/part_000\<close> (lines 26-46). The loop body
  raises \<open>common_ratio\<close> to the power \<open>i\<close>; an exception of the power operation leaves the
  loop and the function.
\<close>

fun geometric_loop ::
  "arithmetic \<Rightarrow> real \<Rightarrow> real \<Rightarrow> int list \<Rightarrow> pyfloat list \<Rightarrow> error + pyfloat list" where
  "geometric_loop ar first_term common_ratio [] sequence = Inr sequence"
| "geometric_loop ar first_term common_ratio (i # rest) sequence =
     (case py_pow ar common_ratio i of
        Inl e \<Rightarrow> Inl e
      | Inr p \<Rightarrow>
          geometric_loop ar first_term common_ratio rest
            (sequence @ [fmul ar (Finite first_term) p]))"

definition generate_geometric_sequence ::
  "arithmetic \<Rightarrow> real \<Rightarrow> real \<Rightarrow> int \<Rightarrow> error + pyfloat list" where
  "generate_geometric_sequence ar first_term common_ratio num_terms =
     (if num_terms \<le> 0 then Inr []
      else geometric_loop ar first_term common_ratio (py_range num_terms) [])"

section \<open>Closed-form sums\<close>

text \<open>
  \<^verbatim>\<open>calculate_arithmetic_sum\<close> of \<^verbatim>\<open>src/unnamed/part_000\<close> (lines 48-54). The quotient
  \<^verbatim>\<open>num_terms / 2\<close> of two ints is a float; its divisor is the literal \<open>2\<close>, so the division
  cannot raise.
\<close>

definition calculate_arithmetic_sum :: "arithmetic \<Rightarrow> real \<Rightarrow> real \<Rightarrow> int \<Rightarrow> pyfloat" where
  "calculate_arithmetic_sum ar first_term common_difference num_terms =
     (if num_terms \<le> 0 then Finite 0
      else fmul ar (to_float ar (of_int num_terms / 2))
             (fadd ar (fmul ar (Finite 2) (Finite first_term))
                (fmul ar (float_of_int (num_terms - 1)) (Finite common_difference))))"

text \<open>\<^verbatim>\<open>calculate_geometric_sum\<close> of \<^verbatim>\<open>src/unnamed/part_000\<close> (lines 56-68).\<close>

definition calculate_geometric_sum ::
  "arithmetic \<Rightarrow> real \<Rightarrow> real \<Rightarrow> int \<Rightarrow> error + pyfloat" where
  "calculate_geometric_sum ar first_term common_ratio num_terms =
     (if num_terms \<le> 0 then Inr (Finite 0)
      else if common_ratio = 1 then Inr (fmul ar (float_of_int num_terms) (Finite first_term))
      else
        (case py_pow ar common_ratio num_terms of
           Inl e \<Rightarrow> Inl e
         | Inr p \<Rightarrow>
             fdiv ar (fmul ar (Finite first_term) (fsub ar (Finite 1) p))
               (fsub ar (Finite 1) (Finite common_ratio))))"

section \<open>Text rendering of numbers\<close>

text \<open>
  Strings are lists of bytes. The source's literals that hold characters beyond ASCII are
  written as their UTF-8 bytes.
\<close>

definition digit_char :: "nat \<Rightarrow> char" where
  "digit_char d = ''0123456789'' ! d"

fun str_nat :: "nat \<Rightarrow> string" where
  "str_nat n = (if n < 10 then [digit_char n] else str_nat (n div 10) @ [digit_char (n mod 10)])"

declare str_nat.simps [simp del]

text \<open>\<^verbatim>\<open>str(k)\<close> for an int \<open>k\<close>: its decimal digits, after a minus sign when negative.\<close>

definition str_int :: "int \<Rightarrow> string" where
  "str_int k = (if k < 0 then CHR ''-'' # str_nat (nat (- k)) else str_nat (nat k))"

text \<open>
  The format specification \<^verbatim>\<open>.6g\<close> is a built-in of Python, not code of the repository:
  the functions below that use it take the formatter as an argument \<open>fmt_6g\<close>, and the
  properties proved of them hold for every formatter. The definition \<open>format_6g\<close> is
  Python's documented behaviour on exact values, for evaluating the functions on concrete
  inputs: round to six significant digits (ties to even), use scientific notation when
  the decimal exponent is below \<open>-4\<close> or at least \<open>6\<close> and fixed-point notation otherwise,
  and drop trailing zeros of the fraction (and the point, when no fraction is left); an
  infinity is \<^verbatim>\<open>inf\<close> or \<^verbatim>\<open>-inf\<close> and a NaN is \<^verbatim>\<open>nan\<close>.
\<close>

definition round_half_even :: "real \<Rightarrow> int" where
  "round_half_even x =
     (let f = \<lfloor>x\<rfloor>; r = x - of_int f
      in if r < 1 / 2 then f else if 1 / 2 < r then f + 1 else if even f then f else f + 1)"

fun ndigits :: "nat \<Rightarrow> nat" where
  "ndigits n = (if n < 10 then 1 else Suc (ndigits (n div 10)))"

declare ndigits.simps [simp del]

text \<open>For \<open>x > 0\<close>: the integer \<open>e\<close> with \<open>10 ^ e \<le> x < 10 ^ (e + 1)\<close>.\<close>

definition decimal_exponent :: "real \<Rightarrow> int" where
  "decimal_exponent x =
     (if 1 \<le> x then int (ndigits (nat \<lfloor>x\<rfloor>)) - 1
      else - int (ndigits (nat (\<lceil>1 / x\<rceil> - 1))))"

definition pow10 :: "int \<Rightarrow> real" where
  "pow10 e = (if 0 \<le> e then 10 ^ nat e else 1 / 10 ^ nat (- e))"

definition strip_zeros :: "string \<Rightarrow> string" where
  "strip_zeros s = rev (dropWhile (\<lambda>c. c = CHR ''0'') (rev s))"

definition with_point :: "string \<Rightarrow> string \<Rightarrow> string" where
  "with_point whole decimals = (if decimals = [] then whole else whole @ CHR ''.'' # decimals)"

definition format_6g_finite :: "real \<Rightarrow> string" where
  "format_6g_finite x =
     (if x = 0 then ''0''
      else
        let a = \<bar>x\<bar>;
            e0 = decimal_exponent a;
            m0 = nat (round_half_even (a / pow10 (e0 - 5)));
            e = (if m0 = 1000000 then e0 + 1 else e0);
            m = (if m0 = 1000000 then 100000 else m0);
            ds = str_nat m;
            sign = (if x < 0 then ''-'' else [])
        in sign @
           (if e < - 4 \<or> 6 \<le> e then
              with_point (take 1 ds) (strip_zeros (drop 1 ds))
              @ CHR ''e'' # (if e < 0 then CHR ''-'' else CHR ''+'')
              # (if \<bar>e\<bar> < 10 then CHR ''0'' # str_nat (nat \<bar>e\<bar>) else str_nat (nat \<bar>e\<bar>))
            else if 0 \<le> e then
              with_point (take (nat e + 1) ds) (strip_zeros (drop (nat e + 1) ds))
            else
              with_point ''0'' (strip_zeros (replicate (nat (- e - 1)) (CHR ''0'') @ ds))))"

fun format_6g :: "pyfloat \<Rightarrow> string" where
  "format_6g (Finite x) = format_6g_finite x"
| "format_6g PosInf = ''inf''"
| "format_6g NegInf = ''-inf''"
| "format_6g NaN = ''nan''"

section \<open>Display formatter\<close>

text \<open>\<^verbatim>\<open>sep.join(parts)\<close>.\<close>

fun join :: "string \<Rightarrow> string list \<Rightarrow> string" where
  "join sep [] = []"
| "join sep [x] = x"
| "join sep (x # y # ys) = x @ sep @ join sep (y # ys)"

text \<open>
  \<^verbatim>\<open>format_sequence_display\<close> of \<^verbatim>\<open>src/unnamed/part_000\<close> (lines 70-91). The loop
  calls \<^verbatim>\<open>int(term)\<close>, which raises on a term that is not finite; the exception leaves
  the loop and the function.
\<close>

fun format_loop ::
  "(pyfloat \<Rightarrow> string) \<Rightarrow> pyfloat list \<Rightarrow> string list \<Rightarrow> error + string list" where
  "format_loop fmt_6g [] formatted_terms = Inr formatted_terms"
| "format_loop fmt_6g (term # rest) formatted_terms =
     (case py_int term of
        Inl e \<Rightarrow> Inl e
      | Inr k \<Rightarrow>
          if term = float_of_int k
          then format_loop fmt_6g rest (formatted_terms @ [str_int k])
          else format_loop fmt_6g rest (formatted_terms @ [fmt_6g term]))"

definition format_sequence_display ::
  "(pyfloat \<Rightarrow> string) \<Rightarrow> pyfloat list \<Rightarrow> error + string" where
  "format_sequence_display fmt_6g sequence =
     (if sequence = [] then Inr ''No terms to display''
      else
        (case format_loop fmt_6g sequence [] of
           Inl e \<Rightarrow> Inl e
         | Inr formatted_terms \<Rightarrow> Inr (join '', '' formatted_terms)))"

text \<open>\<^verbatim>\<open>format_sequence_display\<close> of \<^verbatim>\<open>src/app.py\<close> (lines 25-46).\<close>

fun app_format_loop ::
  "(pyfloat \<Rightarrow> string) \<Rightarrow> pyfloat list \<Rightarrow> string list \<Rightarrow> error + string list" where
  "app_format_loop fmt_6g [] formatted_terms = Inr formatted_terms"
| "app_format_loop fmt_6g (term # rest) formatted_terms =
     (case py_int term of
        Inl e \<Rightarrow> Inl e
      | Inr k \<Rightarrow>
          if term = float_of_int k
          then app_format_loop fmt_6g rest (formatted_terms @ [str_int k])
          else app_format_loop fmt_6g rest (formatted_terms @ [fmt_6g term]))"

definition app_format_sequence_display ::
  "(pyfloat \<Rightarrow> string) \<Rightarrow> pyfloat list \<Rightarrow> error + string" where
  "app_format_sequence_display fmt_6g sequence =
     (if sequence = [] then Inr ''No terms to display''
      else
        (case app_format_loop fmt_6g sequence [] of
           Inl e \<Rightarrow> Inl e
         | Inr formatted_terms \<Rightarrow> Inr (join '', '' formatted_terms)))"

section \<open>The page script\<close>

text \<open>
  \<^verbatim>\<open>main\<close> runs once per interaction. Its inputs are the values of the widgets (the
  sequence type, the two floats, the term count, whether the button was pressed) and the
  entry \<^verbatim>\<open>generate_clicked\<close> of the session state (\<open>None\<close> when the key is absent). Its
  result is the list of elements it renders, in order, and the entry after the run.
  The calls that render fixed text only (page configuration, title, explanatory
  markdown, column layout, the examples expander) render nothing in the model, and of the
  download button the label and the data are kept.
\<close>

datatype sequence_type = Arithmetic | Geometric

fun type_name :: "sequence_type \<Rightarrow> string" where
  "type_name Arithmetic = ''Arithmetic''"
| "type_name Geometric = ''Geometric''"

datatype ui_event =
    Error string
  | Header string
  | Subheader string
  | Metric string string
  | Code string
  | Info string
  | Download_button string string

text \<open>\<^verbatim>\<open>str(e)\<close> for an exception \<open>e\<close>.\<close>

fun str_error :: "error \<Rightarrow> string" where
  "str_error (ZeroDivisionError msg) = msg"
| "str_error (OverflowError msg) = msg"
| "str_error (ValueError msg) = msg"

definition warning_sign :: string where
  "warning_sign = [CHR 0xE2, CHR 0x9A, CHR 0xA0, CHR 0xEF, CHR 0xB8, CHR 0x8F]"

definition cross_mark :: string where
  "cross_mark = [CHR 0xE2, CHR 0x9D, CHR 0x8C]"

definition inbox_tray :: string where
  "inbox_tray = [CHR 0xF0, CHR 0x9F, CHR 0x93, CHR 0xA5]"

definition a_sub_n :: string where
  "a_sub_n = [CHR ''a'', CHR 0xE2, CHR 0x82, CHR 0x99]"

definition times_sign :: string where
  "times_sign = [CHR 0xC3, CHR 0x97]"

definition sup_n_minus_1 :: string where
  "sup_n_minus_1 = [CHR 0xE2, CHR 0x81, CHR 0xBF, CHR 0xE2, CHR 0x81, CHR 0xBB, CHR 0xC2, CHR 0xB9]"

text \<open>The message of the \<^verbatim>\<open>except\<close> branch (part_000 line 265, app.py line 178).\<close>

definition error_message :: "error \<Rightarrow> string" where
  "error_message e =
     cross_mark @ '' An error occurred while generating the sequence: '' @ str_error e"

subsection \<open>\<^verbatim>\<open>main\<close> of \<^verbatim>\<open>src/unnamed/part_000\<close> (lines 93-316)\<close>

text \<open>The text offered for download (lines 247-255).\<close>

definition sequence_text ::
  "(pyfloat \<Rightarrow> string) \<Rightarrow> sequence_type \<Rightarrow> real \<Rightarrow> real \<Rightarrow> int \<Rightarrow> string \<Rightarrow> pyfloat
     \<Rightarrow> string" where
  "sequence_text fmt_6g sequence_type first_term second_param num_terms formatted_sequence
       calculated_sum =
     type_name sequence_type @ '' Sequence\<newline>''
     @ ''First Term: '' @ fmt_6g (Finite first_term) @ ''\<newline>''
     @ (if sequence_type = Arithmetic
        then ''Common Difference: '' @ fmt_6g (Finite second_param) @ ''\<newline>''
        else ''Common Ratio: '' @ fmt_6g (Finite second_param) @ ''\<newline>'')
     @ ''Number of Terms: '' @ str_int num_terms @ ''\<newline>''
     @ ''Sequence: '' @ formatted_sequence @ ''\<newline>''
     @ ''Sum of Series: '' @ fmt_6g calculated_sum @ ''\<newline>''"

text \<open>The formula line (lines 237-243).\<close>

definition formula ::
  "(pyfloat \<Rightarrow> string) \<Rightarrow> sequence_type \<Rightarrow> real \<Rightarrow> real \<Rightarrow> string" where
  "formula fmt_6g sequence_type first_term second_param =
     (if sequence_type = Arithmetic then
        (if 0 \<le> second_param
         then a_sub_n @ '' = '' @ fmt_6g (Finite first_term) @ '' + (n-1) '' @ times_sign
              @ '' '' @ fmt_6g (Finite second_param)
         else a_sub_n @ '' = '' @ fmt_6g (Finite first_term) @ '' - (n-1) '' @ times_sign
              @ '' '' @ fmt_6g (Finite \<bar>second_param\<bar>))
      else a_sub_n @ '' = '' @ fmt_6g (Finite first_term) @ '' '' @ times_sign @ '' ''
           @ fmt_6g (Finite second_param) @ sup_n_minus_1)"

text \<open>
  The elements rendered under \<^verbatim>\<open>if sequence:\<close> before the sequence is formatted
  (lines 199-214).
\<close>

definition render_parameters ::
  "(pyfloat \<Rightarrow> string) \<Rightarrow> sequence_type \<Rightarrow> real \<Rightarrow> real \<Rightarrow> int \<Rightarrow> ui_event list" where
  "render_parameters fmt_6g sequence_type first_term second_param num_terms =
     [Header (''Generated '' @ type_name sequence_type @ '' Sequence''),
      Metric ''First Term'' (fmt_6g (Finite first_term)),
      (if sequence_type = Arithmetic
       then Metric ''Common Difference'' (fmt_6g (Finite second_param))
       else Metric ''Common Ratio'' (fmt_6g (Finite second_param))),
      Metric ''Number of Terms'' (str_int num_terms),
      Subheader ''Sequence:'']"

text \<open>The elements rendered once the sequence is formatted (lines 216-262).\<close>

definition render_results ::
  "arithmetic \<Rightarrow> (pyfloat \<Rightarrow> string) \<Rightarrow> sequence_type \<Rightarrow> real \<Rightarrow> real \<Rightarrow> int
     \<Rightarrow> pyfloat list \<Rightarrow> pyfloat \<Rightarrow> string \<Rightarrow> ui_event list" where
  "render_results ar fmt_6g sequence_type first_term second_param num_terms sequence
       calculated_sum formatted_sequence =
     [Code formatted_sequence]
     @ (if 1 < length sequence then
          [Subheader ''Additional Information:'',
           Info (''**Last Term:** '' @ fmt_6g (last sequence)),
           Info (''**Sum of Series:** '' @ fmt_6g calculated_sum),
           Info (''**Sum (Verification):** '' @ fmt_6g (py_sum ar sequence)),
           Info (''**Range:** '' @ fmt_6g (fsub ar (py_max sequence) (py_min sequence))),
           Info (''**Formula:** '' @ formula fmt_6g sequence_type first_term second_param)]
        else [])
     @ [Download_button (inbox_tray @ '' Download Sequence'')
          (sequence_text fmt_6g sequence_type first_term second_param num_terms
             formatted_sequence calculated_sum)]"

text \<open>The sequence and its closed-form sum (lines 190-195).\<close>

definition compute_sequence ::
  "arithmetic \<Rightarrow> sequence_type \<Rightarrow> real \<Rightarrow> real \<Rightarrow> int \<Rightarrow> error + (pyfloat list \<times> pyfloat)" where
  "compute_sequence ar sequence_type first_term second_param num_terms =
     (if sequence_type = Arithmetic then
        Inr (generate_arithmetic_sequence ar first_term second_param num_terms,
             calculate_arithmetic_sum ar first_term second_param num_terms)
      else
        (case generate_geometric_sequence ar first_term second_param num_terms of
           Inl e \<Rightarrow> Inl e
         | Inr sequence \<Rightarrow>
             (case calculate_geometric_sum ar first_term second_param num_terms of
                Inl e \<Rightarrow> Inl e
              | Inr calculated_sum \<Rightarrow> Inr (sequence, calculated_sum))))"

text \<open>
  The \<^verbatim>\<open>try\<close> block (lines 188-265). An exception leaves the block at the call that
  raises it: what was rendered before stays rendered, and the \<^verbatim>\<open>except\<close> branch renders
  the error message. The calls that can raise are the two that compute the sequence and
  its sum, and \<^verbatim>\<open>format_sequence_display\<close>.
\<close>

definition generation_step ::
  "arithmetic \<Rightarrow> (pyfloat \<Rightarrow> string) \<Rightarrow> sequence_type \<Rightarrow> real \<Rightarrow> real \<Rightarrow> int
     \<Rightarrow> ui_event list" where
  "generation_step ar fmt_6g sequence_type first_term second_param num_terms =
     (case compute_sequence ar sequence_type first_term second_param num_terms of
        Inl e \<Rightarrow> [Error (error_message e)]
      | Inr (sequence, calculated_sum) \<Rightarrow>
          if sequence \<noteq> [] then
            render_parameters fmt_6g sequence_type first_term second_param num_terms
            @ (case format_sequence_display fmt_6g sequence of
                 Inl e \<Rightarrow> [Error (error_message e)]
               | Inr formatted_sequence \<Rightarrow>
                   render_results ar fmt_6g sequence_type first_term second_param num_terms
                     sequence calculated_sum formatted_sequence)
          else [])"

text \<open>
  The button sets the session entry; an absent entry is initialised to \<^verbatim>\<open>True\<close>
  (lines 180-185).
\<close>

definition update_generate_clicked :: "bool \<Rightarrow> bool option \<Rightarrow> bool" where
  "update_generate_clicked button generate_clicked =
     (case (if button then Some True else generate_clicked) of
        None \<Rightarrow> True
      | Some b \<Rightarrow> b)"

definition main ::
  "arithmetic \<Rightarrow> (pyfloat \<Rightarrow> string) \<Rightarrow> sequence_type \<Rightarrow> real \<Rightarrow> real \<Rightarrow> int \<Rightarrow> bool
     \<Rightarrow> bool option \<Rightarrow> ui_event list \<times> bool option" where
  "main ar fmt_6g sequence_type first_term second_param num_terms button generate_clicked =
     (if 1000 < num_terms then
        ([Error (warning_sign
                 @ '' Number of terms cannot exceed 1000 for performance reasons.'')],
         generate_clicked)
      else if num_terms \<le> 0 then
        ([Error (warning_sign @ '' Number of terms must be a positive integer.'')],
         generate_clicked)
      else
        (let clicked = update_generate_clicked button generate_clicked
         in (if clicked
             then generation_step ar fmt_6g sequence_type first_term second_param num_terms
             else [],
             Some clicked)))"

subsection \<open>\<^verbatim>\<open>main\<close> of \<^verbatim>\<open>src/app.py\<close> (lines 48-198)\<close>

text \<open>The text offered for download (lines 164-168).\<close>

definition app_sequence_text ::
  "(pyfloat \<Rightarrow> string) \<Rightarrow> real \<Rightarrow> real \<Rightarrow> int \<Rightarrow> string \<Rightarrow> string" where
  "app_sequence_text fmt_6g first_term common_difference num_terms formatted_sequence =
     ''Arithmetic Sequence\<newline>''
     @ ''First Term: '' @ fmt_6g (Finite first_term) @ ''\<newline>''
     @ ''Common Difference: '' @ fmt_6g (Finite common_difference) @ ''\<newline>''
     @ ''Number of Terms: '' @ str_int num_terms @ ''\<newline>''
     @ ''Sequence: '' @ formatted_sequence @ ''\<newline>''"

text \<open>The formula line (lines 157-160).\<close>

definition app_formula :: "(pyfloat \<Rightarrow> string) \<Rightarrow> real \<Rightarrow> real \<Rightarrow> string" where
  "app_formula fmt_6g first_term common_difference =
     (if 0 \<le> common_difference
      then a_sub_n @ '' = '' @ fmt_6g (Finite first_term) @ '' + (n-1) '' @ times_sign @ '' ''
           @ fmt_6g (Finite common_difference)
      else a_sub_n @ '' = '' @ fmt_6g (Finite first_term) @ '' - (n-1) '' @ times_sign @ '' ''
           @ fmt_6g (Finite \<bar>common_difference\<bar>))"

text \<open>
  The elements rendered under \<^verbatim>\<open>if sequence:\<close> before the sequence is formatted
  (lines 123-135).
\<close>

definition app_render_parameters ::
  "(pyfloat \<Rightarrow> string) \<Rightarrow> real \<Rightarrow> real \<Rightarrow> int \<Rightarrow> ui_event list" where
  "app_render_parameters fmt_6g first_term common_difference num_terms =
     [Header ''Generated Sequence'',
      Metric ''First Term'' (fmt_6g (Finite first_term)),
      Metric ''Common Difference'' (fmt_6g (Finite common_difference)),
      Metric ''Number of Terms'' (str_int num_terms),
      Subheader ''Sequence:'']"

text \<open>The elements rendered once the sequence is formatted (lines 137-175).\<close>

definition app_render_results ::
  "arithmetic \<Rightarrow> (pyfloat \<Rightarrow> string) \<Rightarrow> real \<Rightarrow> real \<Rightarrow> int \<Rightarrow> pyfloat list \<Rightarrow> string
     \<Rightarrow> ui_event list" where
  "app_render_results ar fmt_6g first_term common_difference num_terms sequence
       formatted_sequence =
     [Code formatted_sequence]
     @ (if 1 < length sequence then
          [Subheader ''Additional Information:'',
           Info (''**Last Term:** '' @ fmt_6g (last sequence)),
           Info (''**Sum of Sequence:** '' @ fmt_6g (py_sum ar sequence)),
           Info (''**Range:** '' @ fmt_6g (fsub ar (py_max sequence) (py_min sequence))),
           Info (''**Formula:** '' @ app_formula fmt_6g first_term common_difference)]
        else [])
     @ [Download_button (inbox_tray @ '' Download Sequence'')
          (app_sequence_text fmt_6g first_term common_difference num_terms
             formatted_sequence)]"

text \<open>
  The \<^verbatim>\<open>try\<close> block (lines 118-178). The call that can raise is
  \<^verbatim>\<open>format_sequence_display\<close>; the \<^verbatim>\<open>except\<close> branch then renders the error message
  after the elements that were rendered before the call.
\<close>

definition app_generation_step ::
  "arithmetic \<Rightarrow> (pyfloat \<Rightarrow> string) \<Rightarrow> real \<Rightarrow> real \<Rightarrow> int \<Rightarrow> ui_event list" where
  "app_generation_step ar fmt_6g first_term common_difference num_terms =
     (let sequence = app_generate_arithmetic_sequence ar first_term common_difference num_terms
      in if sequence \<noteq> [] then
           app_render_parameters fmt_6g first_term common_difference num_terms
           @ (case app_format_sequence_display fmt_6g sequence of
                Inl e \<Rightarrow> [Error (error_message e)]
              | Inr formatted_sequence \<Rightarrow>
                  app_render_results ar fmt_6g first_term common_difference num_terms sequence
                    formatted_sequence)
         else [])"

definition app_main ::
  "arithmetic \<Rightarrow> (pyfloat \<Rightarrow> string) \<Rightarrow> real \<Rightarrow> real \<Rightarrow> int \<Rightarrow> bool \<Rightarrow> bool option
     \<Rightarrow> ui_event list \<times> bool option" where
  "app_main ar fmt_6g first_term common_difference num_terms button generate_clicked =
     (if 1000 < num_terms then
        ([Error (warning_sign
                 @ '' Number of terms cannot exceed 1000 for performance reasons.'')],
         generate_clicked)
      else if num_terms \<le> 0 then
        ([Error (warning_sign @ '' Number of terms must be a positive integer.'')],
         generate_clicked)
      else
        (let clicked = update_generate_clicked button generate_clicked
         in (if clicked
             then app_generation_step ar fmt_6g first_term common_difference num_terms
             else [],
             Some clicked)))"

text \<open>What a run offers for download, and whether it reports an error.\<close>

fun downloads :: "ui_event list \<Rightarrow> string list" where
  "downloads [] = []"
| "downloads (Download_button label data # es) = data # downloads es"
| "downloads (e # es) = downloads es"

fun reports_error :: "ui_event list \<Rightarrow> bool" where
  "reports_error [] = False"
| "reports_error (Error msg # es) = True"
| "reports_error (e # es) = reports_error es"

fun shows_code :: "ui_event list \<Rightarrow> string list" where
  "shows_code [] = []"
| "shows_code (Code text # es) = text # shows_code es"
| "shows_code (e # es) = shows_code es"

text \<open>\<open>contains s t\<close>: the string \<open>s\<close> occurs in \<open>t\<close> as a contiguous piece.\<close>

fun starts_with :: "string \<Rightarrow> string \<Rightarrow> bool" where
  "starts_with [] t = True"
| "starts_with (c # s) [] = False"
| "starts_with (c # s) (d # t) = (c = d \<and> starts_with s t)"

fun contains :: "string \<Rightarrow> string \<Rightarrow> bool" where
  "contains s [] = (s = [])"
| "contains s (d # t) = (starts_with s (d # t) \<or> contains s t)"

section \<open>Properties of the float operations\<close>

lemma to_float_Exact [simp]: "to_float Exact x = Finite x"
  by (simp add: to_float_def)


text \<open>The powers of a base of magnitude at least one grow; those of a smaller base stay below one.\<close>

lemma overflows_power_mono:
  assumes "1 \<le> \<bar>r\<bar>" and "k \<le> m" and "overflows ar (r ^ k)"
  shows "overflows ar (r ^ m)"
proof (cases ar)
  case Exact
  with assms show ?thesis by simp
next
  case Binary64
  from assms have "\<bar>r\<bar> ^ k \<le> \<bar>r\<bar> ^ m"
    by (simp add: power_increasing)
  with assms Binary64 show ?thesis
    by (simp add: power_abs)
qed

lemma small_base_no_overflow:
  assumes "\<bar>r\<bar> \<le> 1"
  shows "\<not> overflows ar (r ^ k)"
proof (cases ar)
  case Exact
  then show ?thesis by simp
next
  case Binary64
  from assms have "\<bar>r\<bar> ^ k \<le> 1"
    by (simp add: power_le_one)
  moreover have "(1::real) < overflow_threshold"
    by (simp add: overflow_threshold_def)
  ultimately show ?thesis
    using Binary64 by (simp add: power_abs)
qed

lemma py_pow_nat:
  "py_pow ar r (int k) =
     (if overflows ar (r ^ k) then Inl (OverflowError range_error) else Inr (Finite (r ^ k)))"
  by (simp add: py_pow_def)

section \<open>Properties of the generators\<close>

text \<open>
  The arithmetic loop appends one term per index: the result is the list of terms in
  index order. The geometric loop does the same as long as the power of the ratio does not
  overflow, and raises at the first index where it does.
\<close>

lemma arithmetic_fold_map:
  "fold (\<lambda>i sequence. sequence @ [f i]) xs acc = acc @ map f xs"
  by (induction xs arbitrary: acc) simp_all

lemma generate_arithmetic_sequence_map:
  "generate_arithmetic_sequence ar a d n =
     map (\<lambda>i. fadd ar (Finite a) (fmul ar (float_of_int (int i)) (Finite d))) [0..<nat n]"
  by (simp add: generate_arithmetic_sequence_def py_range_def arithmetic_fold_map comp_def)

lemma app_generate_arithmetic_sequence_map:
  "app_generate_arithmetic_sequence ar a d n =
     map (\<lambda>i. fadd ar (Finite a) (fmul ar (float_of_int (int i)) (Finite d))) [0..<nat n]"
  by (simp add: app_generate_arithmetic_sequence_def py_range_def arithmetic_fold_map comp_def)

lemma generate_arithmetic_sequence_Exact:
  "generate_arithmetic_sequence Exact a d n = map (\<lambda>i. Finite (a + real i * d)) [0..<nat n]"
  by (simp add: generate_arithmetic_sequence_map float_of_int_def)

lemma app_generate_arithmetic_sequence_Exact:
  "app_generate_arithmetic_sequence Exact a d n =
     map (\<lambda>i. Finite (a + real i * d)) [0..<nat n]"
  by (simp add: app_generate_arithmetic_sequence_map float_of_int_def)

lemma geometric_loop_returns:
  assumes "\<forall>k\<in>set ks. \<not> overflows ar (r ^ k)"
  shows "geometric_loop ar a r (map int ks) acc =
           Inr (acc @ map (\<lambda>k. fmul ar (Finite a) (Finite (r ^ k))) ks)"
  using assms by (induction ks arbitrary: acc) (simp_all add: py_pow_nat)

lemma geometric_loop_raises:
  assumes "k \<in> set ks" and "overflows ar (r ^ k)"
  shows "geometric_loop ar a r (map int ks) acc = Inl (OverflowError range_error)"
  using assms by (induction ks arbitrary: acc) (auto simp: py_pow_nat)

lemma generate_geometric_sequence_returns:
  assumes "\<forall>k<nat n. \<not> overflows ar (r ^ k)"
  shows "generate_geometric_sequence ar a r n =
           Inr (map (\<lambda>k. fmul ar (Finite a) (Finite (r ^ k))) [0..<nat n])"
  using assms
  by (simp add: generate_geometric_sequence_def py_range_def geometric_loop_returns)

lemma generate_geometric_sequence_raises:
  assumes "k < nat n" and "overflows ar (r ^ k)"
  shows "generate_geometric_sequence ar a r n = Inl (OverflowError range_error)"
proof -
  from assms have "k \<in> set [0..<nat n]" and "0 < n"
    by simp_all
  with assms show ?thesis
    by (simp add: generate_geometric_sequence_def py_range_def geometric_loop_raises)
qed

lemma generate_geometric_sequence_Exact:
  "generate_geometric_sequence Exact a r n = Inr (map (\<lambda>k. Finite (a * r ^ k)) [0..<nat n])"
  by (simp add: generate_geometric_sequence_returns)

text \<open>
  C1. For every term count \<open>n > 0\<close> and all first terms \<open>a\<close> and common differences \<open>d\<close>,
  \<open>generate_arithmetic_sequence a d n\<close> (in both programs) is a list of length exactly \<open>n\<close>
  whose \<open>i\<close>-th element (counted from 0) is \<open>a + i * d\<close>, for every \<open>i\<close> in \<open>[0, n)\<close>: the
  float sum of \<open>a\<close> and the float product of \<open>i\<close> and \<open>d\<close> in either arithmetic, which
  over exact arithmetic is the number \<open>a + i * d\<close>.
\<close>

theorem C1_arithmetic_sequence_terms:
  assumes "0 < n"
  shows "int (length (generate_arithmetic_sequence ar a d n)) = n
       \<and> int (length (app_generate_arithmetic_sequence ar a d n)) = n
       \<and> (\<forall>i. 0 \<le> i \<and> i < n \<longrightarrow>
            generate_arithmetic_sequence ar a d n ! nat i
              = fadd ar (Finite a) (fmul ar (float_of_int i) (Finite d))
          \<and> app_generate_arithmetic_sequence ar a d n ! nat i
              = fadd ar (Finite a) (fmul ar (float_of_int i) (Finite d))
          \<and> generate_arithmetic_sequence Exact a d n ! nat i = Finite (a + of_int i * d)
          \<and> app_generate_arithmetic_sequence Exact a d n ! nat i = Finite (a + of_int i * d))"
  using assms
  by (simp add: generate_arithmetic_sequence_map app_generate_arithmetic_sequence_map
      float_of_int_def)

theorem C1_arithmetic_sequence_terms_witness:
  "(0::int) < 4
   \<and> int (length (generate_arithmetic_sequence Binary64 100 (- 5) 4)) = 4
   \<and> int (length (app_generate_arithmetic_sequence Binary64 100 (- 5) 4)) = 4
   \<and> generate_arithmetic_sequence Binary64 100 (- 5) 4 ! nat 3
       = fadd Binary64 (Finite 100) (fmul Binary64 (float_of_int 3) (Finite (- 5)))
   \<and> generate_arithmetic_sequence Exact 100 (- 5) 4 ! nat 3 = Finite (100 + of_int 3 * (- 5))
   \<and> app_generate_arithmetic_sequence Exact 100 (- 5) 4 ! nat 3
       = Finite (100 + of_int 3 * (- 5))
   \<and> generate_arithmetic_sequence Binary64 100 (- 5) 4
       = [Finite 100, Finite 95, Finite 90, Finite 85]
   \<and> app_generate_arithmetic_sequence Binary64 100 (- 5) 4
       = [Finite 100, Finite 95, Finite 90, Finite 85]"
proof -
  have h: "(0::int) < 4" by simp
  have i: "(0::int) \<le> 3 \<and> (3::int) < 4" by simp
  have e1: "generate_arithmetic_sequence Binary64 100 (- 5) 4
      = [Finite 100, Finite 95, Finite 90, Finite 85]"
    by (simp add: generate_arithmetic_sequence_def py_range_def upt_rec float_of_int_def
        to_float_def overflow_threshold_def)
  have e2: "app_generate_arithmetic_sequence Binary64 100 (- 5) 4
      = [Finite 100, Finite 95, Finite 90, Finite 85]"
    by (simp add: app_generate_arithmetic_sequence_def py_range_def upt_rec float_of_int_def
        to_float_def overflow_threshold_def)
  from C1_arithmetic_sequence_terms [OF h, of Binary64 100 "- 5"] h i e1 e2 show ?thesis
    by blast
qed

text \<open>
  C2. For every term count \<open>n > 0\<close>, first term \<open>a\<close> and common ratio \<open>r\<close>: when none of the
  powers \<open>r ** i\<close> for \<open>i\<close> in \<open>[0, n)\<close> overflows, \<open>generate_geometric_sequence a r n\<close>
  returns a list of length exactly \<open>n\<close> whose \<open>i\<close>-th element (counted from 0) is the float
  product of \<open>a\<close> and the value of the power operation \<open>r ** i\<close>; when one of these powers
  overflows, the function raises \<^verbatim>\<open>OverflowError\<close>, whatever \<open>a\<close> is, and returns no list:
  each term is computed by raising \<open>r\<close> to the power of the index and not from the term
  before it. Over exact arithmetic the list is always returned and its \<open>i\<close>-th element is
  \<open>a * r ^ i\<close>.
\<close>

theorem C2_geometric_sequence_terms:
  assumes "0 < n"
  shows "((\<forall>i. 0 \<le> i \<and> i < n \<longrightarrow> \<not> overflows ar (r ^ nat i)) \<longrightarrow>
            (\<exists>g. generate_geometric_sequence ar a r n = Inr g
               \<and> int (length g) = n
               \<and> (\<forall>i. 0 \<le> i \<and> i < n \<longrightarrow>
                     py_pow ar r i = Inr (Finite (r ^ nat i))
                   \<and> g ! nat i = fmul ar (Finite a) (Finite (r ^ nat i)))))
       \<and> ((\<exists>i. 0 \<le> i \<and> i < n \<and> overflows ar (r ^ nat i)) \<longrightarrow>
            generate_geometric_sequence ar a r n = Inl (OverflowError range_error))
       \<and> (\<exists>g. generate_geometric_sequence Exact a r n = Inr g
             \<and> int (length g) = n
             \<and> (\<forall>i. 0 \<le> i \<and> i < n \<longrightarrow> g ! nat i = Finite (a * r ^ nat i)))"
proof (intro conjI impI)
  assume ok: "\<forall>i. 0 \<le> i \<and> i < n \<longrightarrow> \<not> overflows ar (r ^ nat i)"
  have "\<forall>k<nat n. \<not> overflows ar (r ^ k)"
  proof (intro allI impI)
    fix k
    assume "k < nat n"
    then have "0 \<le> int k \<and> int k < n" by linarith
    with ok have "\<not> overflows ar (r ^ nat (int k))" by blast
    then show "\<not> overflows ar (r ^ k)" by simp
  qed
  then have g: "generate_geometric_sequence ar a r n =
      Inr (map (\<lambda>k. fmul ar (Finite a) (Finite (r ^ k))) [0..<nat n])"
    by (rule generate_geometric_sequence_returns)
  have "\<forall>i. 0 \<le> i \<and> i < n \<longrightarrow>
      py_pow ar r i = Inr (Finite (r ^ nat i))
      \<and> map (\<lambda>k. fmul ar (Finite a) (Finite (r ^ k))) [0..<nat n] ! nat i
          = fmul ar (Finite a) (Finite (r ^ nat i))"
  proof (intro allI impI)
    fix i
    assume i: "0 \<le> i \<and> i < n"
    with ok have "\<not> overflows ar (r ^ nat i)" by blast
    with i have "py_pow ar r i = Inr (Finite (r ^ nat i))"
      using py_pow_nat [of ar r "nat i"] by simp
    moreover from i have "nat i < nat n" by linarith
    ultimately show "py_pow ar r i = Inr (Finite (r ^ nat i))
      \<and> map (\<lambda>k. fmul ar (Finite a) (Finite (r ^ k))) [0..<nat n] ! nat i
          = fmul ar (Finite a) (Finite (r ^ nat i))"
      by simp
  qed
  with g assms show "\<exists>g. generate_geometric_sequence ar a r n = Inr g
      \<and> int (length g) = n
      \<and> (\<forall>i. 0 \<le> i \<and> i < n \<longrightarrow>
            py_pow ar r i = Inr (Finite (r ^ nat i))
          \<and> g ! nat i = fmul ar (Finite a) (Finite (r ^ nat i)))"
    by simp
next
  assume "\<exists>i. 0 \<le> i \<and> i < n \<and> overflows ar (r ^ nat i)"
  then obtain i where "0 \<le> i" and "i < n" and o: "overflows ar (r ^ nat i)"
    by blast
  then have "nat i < nat n" by linarith
  then show "generate_geometric_sequence ar a r n = Inl (OverflowError range_error)"
    using o by (rule generate_geometric_sequence_raises)
next
  from assms show "\<exists>g. generate_geometric_sequence Exact a r n = Inr g
      \<and> int (length g) = n
      \<and> (\<forall>i. 0 \<le> i \<and> i < n \<longrightarrow> g ! nat i = Finite (a * r ^ nat i))"
    by (simp add: generate_geometric_sequence_Exact)
qed

theorem C2_geometric_sequence_terms_witness:
  "(0::int) < 4
   \<and> generate_geometric_sequence Binary64 3 2 4 = Inr [Finite 3, Finite 6, Finite 12, Finite 24]
   \<and> (\<exists>g. generate_geometric_sequence Binary64 3 2 4 = Inr g
          \<and> int (length g) = 4
          \<and> py_pow Binary64 2 3 = Inr (Finite (2 ^ nat 3))
          \<and> g ! nat 3 = fmul Binary64 (Finite 3) (Finite (2 ^ nat 3)))
   \<and> (0::int) < 3
   \<and> overflows Binary64 ((2 ^ 512) ^ nat 2)
   \<and> generate_geometric_sequence Binary64 0 (2 ^ 512) 3 = Inl (OverflowError range_error)"
proof -
  have h: "(0::int) < 4" by simp
  have i: "(0::int) \<le> 3 \<and> (3::int) < 4" by simp
  have ok: "\<forall>i. 0 \<le> i \<and> i < (4::int) \<longrightarrow> \<not> overflows Binary64 (2 ^ nat i)"
  proof (intro allI impI)
    fix i :: int
    assume "0 \<le> i \<and> i < 4"
    then have "nat i \<le> 3" by linarith
    moreover have "\<not> overflows Binary64 (2 ^ 3)"
      by (simp add: overflow_threshold_def)
    ultimately show "\<not> overflows Binary64 (2 ^ nat i)"
      using overflows_power_mono [of 2 "nat i" 3 Binary64] by auto
  qed
  have e: "generate_geometric_sequence Binary64 3 2 4
      = Inr [Finite 3, Finite 6, Finite 12, Finite 24]"
    by (simp add: generate_geometric_sequence_def py_range_def py_pow_def upt_rec to_float_def
        overflow_threshold_def)
  have h': "(0::int) < 3" by simp
  have j: "(0::int) \<le> 2 \<and> (2::int) < 3" by simp
  have o: "overflows Binary64 ((2 ^ 512) ^ nat 2)"
    by (simp add: overflow_threshold_def)
  from C2_geometric_sequence_terms [OF h, of Binary64 2 3] h i ok e
  have 1: "\<exists>g. generate_geometric_sequence Binary64 3 2 4 = Inr g
          \<and> int (length g) = 4
          \<and> py_pow Binary64 2 3 = Inr (Finite (2 ^ nat 3))
          \<and> g ! nat 3 = fmul Binary64 (Finite 3) (Finite (2 ^ nat 3))"
    by blast
  from C2_geometric_sequence_terms [OF h', of Binary64 "2 ^ 512" 0] j o
  have 2: "generate_geometric_sequence Binary64 0 (2 ^ 512) 3 = Inl (OverflowError range_error)"
    by blast
  from h e 1 h' o 2 show ?thesis
    by blast
qed

text \<open>
  C2 does not hold for all finite floats: with first term \<open>1\<close>, ratio \<open>10\<close> and \<open>310\<close>
  terms the power \<open>10 ** 309\<close> overflows and the function raises, so no list of length
  \<open>310\<close> is returned.
\<close>

theorem C2_geometric_sequence_terms_counterexample:
  "overflows Binary64 (10 ^ 309)
   \<and> generate_geometric_sequence Binary64 1 10 310 = Inl (OverflowError range_error)
   \<and> \<not> (\<exists>g. generate_geometric_sequence Binary64 1 10 310 = Inr g \<and> int (length g) = 310)"
proof -
  have o: "overflows Binary64 (10 ^ 309)"
    by (simp add: overflow_threshold_def)
  have "(309::nat) < nat 310" by simp
  then have "generate_geometric_sequence Binary64 1 10 310 = Inl (OverflowError range_error)"
    using o by (rule generate_geometric_sequence_raises)
  with o show ?thesis by simp
qed

text \<open>
  C5. For every term count \<open>n \<le> 0\<close> and all other inputs, the two generators return the
  empty list (no exception is raised) and the two closed-form sums return \<open>0\<close>.
\<close>

theorem C5_nonpositive_term_count:
  assumes "n \<le> 0"
  shows "generate_arithmetic_sequence ar a d n = []
       \<and> app_generate_arithmetic_sequence ar a d n = []
       \<and> generate_geometric_sequence ar a r n = Inr []
       \<and> calculate_arithmetic_sum ar a d n = Finite 0
       \<and> calculate_geometric_sum ar a r n = Inr (Finite 0)"
  using assms
  by (simp add: generate_arithmetic_sequence_def app_generate_arithmetic_sequence_def
      generate_geometric_sequence_def calculate_arithmetic_sum_def calculate_geometric_sum_def)

theorem C5_nonpositive_term_count_witness:
  "(- 3::int) \<le> 0
   \<and> generate_arithmetic_sequence Binary64 1 2 (- 3) = []
   \<and> app_generate_arithmetic_sequence Binary64 1 2 (- 3) = []
   \<and> generate_geometric_sequence Binary64 1 2 (- 3) = Inr []
   \<and> calculate_arithmetic_sum Binary64 1 2 (- 3) = Finite 0
   \<and> calculate_geometric_sum Binary64 1 2 (- 3) = Inr (Finite 0)"
  using C5_nonpositive_term_count [of "- 3" Binary64 1 2 2] by simp

text \<open>The two copies of the formatting loop are the same function.\<close>

lemma app_format_loop_eq: "app_format_loop fmt xs acc = format_loop fmt xs acc"
  by (induction xs arbitrary: acc) (simp_all split: sum.splits)

text \<open>
  C9. The functions that the two programs share are equal as functions:
  \<open>generate_arithmetic_sequence\<close> of \<^verbatim>\<open>src/app.py\<close> returns the same list as the one of
  \<^verbatim>\<open>src/unnamed/part_000\<close>, and \<open>format_sequence_display\<close> of \<^verbatim>\<open>src/app.py\<close> returns the
  same string as the one of \<^verbatim>\<open>src/unnamed/part_000\<close>, on all inputs.
\<close>

theorem C9_variants_agree:
  "generate_arithmetic_sequence = app_generate_arithmetic_sequence
   \<and> format_sequence_display = app_format_sequence_display"
proof
  show "generate_arithmetic_sequence = app_generate_arithmetic_sequence"
    by (intro ext)
      (simp add: generate_arithmetic_sequence_def app_generate_arithmetic_sequence_def)
  show "format_sequence_display = app_format_sequence_display"
    by (intro ext)
      (simp add: format_sequence_display_def app_format_sequence_display_def
        app_format_loop_eq)
qed

text \<open>Consecutive terms: the index \<open>i + 1\<close> is in range whenever \<open>i < n - 1\<close>.\<close>

lemma arithmetic_terms_step:
  assumes "0 \<le> i" and "i < n - 1"
  shows "fsub Exact (map (\<lambda>k. Finite (a + real k * d)) [0..<nat n] ! nat (i + 1))
           (map (\<lambda>k. Finite (a + real k * d)) [0..<nat n] ! nat i) = Finite d"
proof -
  define k where "k = nat i"
  with assms have "nat (i + 1) = Suc k" and "Suc k < nat n" and "k < nat n" and "nat i = k"
    by linarith+
  then show ?thesis
    by (simp add: fsub_def algebra_simps)
qed

lemma geometric_terms_step:
  assumes "0 \<le> i" and "i < n - 1"
  shows "map (\<lambda>k. Finite (a * r ^ k)) [0..<nat n] ! nat (i + 1)
           = fmul Exact (map (\<lambda>k. Finite (a * r ^ k)) [0..<nat n] ! nat i) (Finite r)"
proof -
  define k where "k = nat i"
  with assms have "nat (i + 1) = Suc k" and "Suc k < nat n" and "k < nat n" and "nat i = k"
    by linarith+
  then show ?thesis
    by simp
qed

text \<open>
  C10. Recurrence of the generated sequences, over exact arithmetic: for every term count
  \<open>n \<ge> 2\<close> and all other inputs, the arithmetic sequence \<open>s\<close> (of either program)
  satisfies \<open>s[i+1] - s[i] = d\<close> for every \<open>i\<close> in \<open>[0, n-1)\<close>, and the geometric sequence
  \<open>g\<close> is returned and satisfies \<open>g[i+1] = g[i] * r\<close> for every \<open>i\<close> in \<open>[0, n-1)\<close>.
\<close>

theorem C10_recurrence:
  assumes "2 \<le> n"
  shows "(\<forall>i. 0 \<le> i \<and> i < n - 1 \<longrightarrow>
            fsub Exact (generate_arithmetic_sequence Exact a d n ! nat (i + 1))
              (generate_arithmetic_sequence Exact a d n ! nat i) = Finite d
          \<and> fsub Exact (app_generate_arithmetic_sequence Exact a d n ! nat (i + 1))
              (app_generate_arithmetic_sequence Exact a d n ! nat i) = Finite d)
       \<and> (\<exists>g. generate_geometric_sequence Exact a r n = Inr g
              \<and> (\<forall>i. 0 \<le> i \<and> i < n - 1 \<longrightarrow>
                    g ! nat (i + 1) = fmul Exact (g ! nat i) (Finite r)))"
proof (intro conjI allI impI)
  fix i
  assume "0 \<le> i \<and> i < n - 1"
  then show "fsub Exact (generate_arithmetic_sequence Exact a d n ! nat (i + 1))
      (generate_arithmetic_sequence Exact a d n ! nat i) = Finite d"
    by (simp only: generate_arithmetic_sequence_Exact arithmetic_terms_step)
next
  fix i
  assume "0 \<le> i \<and> i < n - 1"
  then show "fsub Exact (app_generate_arithmetic_sequence Exact a d n ! nat (i + 1))
      (app_generate_arithmetic_sequence Exact a d n ! nat i) = Finite d"
    by (simp only: app_generate_arithmetic_sequence_Exact arithmetic_terms_step)
next
  have "\<forall>i. 0 \<le> i \<and> i < n - 1 \<longrightarrow>
      map (\<lambda>k. Finite (a * r ^ k)) [0..<nat n] ! nat (i + 1)
        = fmul Exact (map (\<lambda>k. Finite (a * r ^ k)) [0..<nat n] ! nat i) (Finite r)"
    using geometric_terms_step by blast
  then show "\<exists>g. generate_geometric_sequence Exact a r n = Inr g
      \<and> (\<forall>i. 0 \<le> i \<and> i < n - 1 \<longrightarrow> g ! nat (i + 1) = fmul Exact (g ! nat i) (Finite r))"
    by (simp only: generate_geometric_sequence_Exact) blast
qed

theorem C10_recurrence_witness:
  "(2::int) \<le> 3
   \<and> generate_arithmetic_sequence Exact 5 (1 / 4) 3 = [Finite 5, Finite (21 / 4), Finite (11 / 2)]
   \<and> generate_geometric_sequence Exact 5 (- 3) 3 = Inr [Finite 5, Finite (- 15), Finite 45]
   \<and> fsub Exact (generate_arithmetic_sequence Exact 5 (1 / 4) 3 ! nat (1 + 1))
       (generate_arithmetic_sequence Exact 5 (1 / 4) 3 ! nat 1) = Finite (1 / 4)
   \<and> fsub Exact (app_generate_arithmetic_sequence Exact 5 (1 / 4) 3 ! nat (1 + 1))
       (app_generate_arithmetic_sequence Exact 5 (1 / 4) 3 ! nat 1) = Finite (1 / 4)
   \<and> (\<exists>g. generate_geometric_sequence Exact 5 (- 3) 3 = Inr g
          \<and> g ! nat (1 + 1) = fmul Exact (g ! nat 1) (Finite (- 3)))"
proof -
  have h: "(2::int) \<le> 3" by simp
  have i: "(0::int) \<le> 1 \<and> (1::int) < 3 - 1" by simp
  have e1: "generate_arithmetic_sequence Exact 5 (1 / 4) 3
      = [Finite 5, Finite (21 / 4), Finite (11 / 2)]"
    by (simp add: generate_arithmetic_sequence_def py_range_def upt_rec float_of_int_def)
  have e2: "generate_geometric_sequence Exact 5 (- 3) 3 = Inr [Finite 5, Finite (- 15), Finite 45]"
    by (simp add: generate_geometric_sequence_def py_range_def py_pow_def upt_rec)
  from C10_recurrence [OF h, of 5 "1 / 4" "- 3"] h i e1 e2 show ?thesis
    by blast
qed

section \<open>Properties of the closed-form sums\<close>

lemma foldl_fadd_Exact:
  "foldl (fadd Exact) (Finite acc) (map Finite xs) = Finite (acc + sum_list xs)"
  by (induction xs arbitrary: acc) (simp_all add: add.assoc)

lemma py_sum_Exact: "py_sum Exact (map Finite xs) = Finite (sum_list xs)"
  using foldl_fadd_Exact [of 0 xs] by (simp add: py_sum_def)

lemma sum_list_upt: "sum_list (map f [0..<k]) = (\<Sum>i<k. (f i :: real))"
  by (simp add: interv_sum_list_conv_sum_set_nat atLeast0LessThan)

lemma arithmetic_series:
  "(\<Sum>i<k. a + real i * d) = real k / 2 * (2 * a + (real k - 1) * d)"
proof (induction k)
  case 0
  show ?case by simp
next
  case (Suc k)
  have "(\<Sum>i<Suc k. a + real i * d) = (\<Sum>i<k. a + real i * d) + (a + real k * d)"
    by simp
  also have "\<dots> = real k / 2 * (2 * a + (real k - 1) * d) + (a + real k * d)"
    by (simp only: Suc.IH)
  also have "\<dots> = real (Suc k) / 2 * (2 * a + (real (Suc k) - 1) * d)"
    by (simp add: field_simps)
  finally show ?case .
qed

lemma geometric_series:
  assumes "r \<noteq> 1"
  shows "(\<Sum>i<k. a * r ^ i) = a * (1 - r ^ k) / (1 - (r::real))"
proof -
  have "(\<Sum>i<k. a * r ^ i) = a * (\<Sum>i<k. r ^ i)"
    by (simp add: sum_distrib_left)
  also have "(\<Sum>i<k. r ^ i) = (1 - r ^ k) / (1 - r)"
    using assms by (simp add: sum_gp_strict)
  finally show ?thesis by simp
qed

lemma calculate_arithmetic_sum_Exact:
  assumes "0 < n"
  shows "calculate_arithmetic_sum Exact a d n =
           Finite (real (nat n) / 2 * (2 * a + (real (nat n) - 1) * d))"
  using assms by (simp add: calculate_arithmetic_sum_def float_of_int_def)

lemma calculate_arithmetic_sum_eq:
  assumes "0 < n"
  shows "calculate_arithmetic_sum Exact a d n =
           py_sum Exact (generate_arithmetic_sequence Exact a d n)"
proof -
  have "generate_arithmetic_sequence Exact a d n =
      map Finite (map (\<lambda>i. a + real i * d) [0..<nat n])"
    by (simp add: generate_arithmetic_sequence_Exact)
  then have "py_sum Exact (generate_arithmetic_sequence Exact a d n) =
      Finite (sum_list (map (\<lambda>i. a + real i * d) [0..<nat n]))"
    by (simp only: py_sum_Exact)
  with assms show ?thesis
    by (simp add: calculate_arithmetic_sum_Exact sum_list_upt arithmetic_series)
qed

lemma calculate_geometric_sum_Exact:
  assumes "0 < n"
  shows "calculate_geometric_sum Exact a r n =
           Inr (Finite (if r = 1 then of_int n * a else a * (1 - r ^ nat n) / (1 - r)))"
  using assms
  by (simp add: calculate_geometric_sum_def py_pow_def float_of_int_def fsub_def)

lemma calculate_geometric_sum_eq:
  assumes "0 < n"
  shows "calculate_geometric_sum Exact a r n =
           Inr (py_sum Exact (map (\<lambda>i. Finite (a * r ^ i)) [0..<nat n]))"
proof -
  have "map (\<lambda>i. Finite (a * r ^ i)) [0..<nat n] = map Finite (map (\<lambda>i. a * r ^ i) [0..<nat n])"
    by simp
  then have s: "py_sum Exact (map (\<lambda>i. Finite (a * r ^ i)) [0..<nat n]) =
      Finite (sum_list (map (\<lambda>i. a * r ^ i) [0..<nat n]))"
    by (simp only: py_sum_Exact)
  show ?thesis
  proof (cases "r = 1")
    case True
    with assms s show ?thesis
      by (simp add: calculate_geometric_sum_Exact sum_list_upt)
  next
    case False
    with assms s show ?thesis
      by (simp add: calculate_geometric_sum_Exact sum_list_upt geometric_series)
  qed
qed

text \<open>
  C3. For every term count \<open>n > 0\<close> and all other inputs, over exact arithmetic the
  closed-form sum equals the direct summation of the generated sequence, exactly:
  \<open>calculate_arithmetic_sum a d n\<close> is \<^verbatim>\<open>sum\<close> of \<open>generate_arithmetic_sequence a d n\<close>, and
  \<open>calculate_geometric_sum a r n\<close> is \<^verbatim>\<open>sum\<close> of \<open>generate_geometric_sequence a r n\<close>.
\<close>

theorem C3_closed_form_sum_is_direct_sum:
  assumes "0 < n"
  shows "calculate_arithmetic_sum Exact a d n =
           py_sum Exact (generate_arithmetic_sequence Exact a d n)
       \<and> (\<exists>g. generate_geometric_sequence Exact a r n = Inr g
              \<and> calculate_geometric_sum Exact a r n = Inr (py_sum Exact g))"
  using assms
  by (simp add: calculate_arithmetic_sum_eq calculate_geometric_sum_eq
      generate_geometric_sequence_Exact)

theorem C3_closed_form_sum_is_direct_sum_witness:
  "(0::int) < 6
   \<and> calculate_arithmetic_sum Exact 100 (- 5) 6 =
       py_sum Exact (generate_arithmetic_sequence Exact 100 (- 5) 6)
   \<and> (\<exists>g. generate_geometric_sequence Exact 100 (1 / 2) 6 = Inr g
          \<and> calculate_geometric_sum Exact 100 (1 / 2) 6 = Inr (py_sum Exact g))
   \<and> calculate_arithmetic_sum Exact 100 (- 5) 6 = Finite 525
   \<and> calculate_geometric_sum Exact 100 (1 / 2) 6 = Inr (Finite (196875 / 1000))"
proof -
  have h: "(0::int) < 6" by simp
  have e1: "calculate_arithmetic_sum Exact 100 (- 5) 6 = Finite 525"
    by (simp add: calculate_arithmetic_sum_def float_of_int_def)
  have e2: "calculate_geometric_sum Exact 100 (1 / 2) 6 = Inr (Finite (196875 / 1000))"
    by (simp add: calculate_geometric_sum_Exact power_divide)
  from C3_closed_form_sum_is_direct_sum [OF h, of 100 "- 5" "1 / 2"] h e1 e2
  show ?thesis by blast
qed

text \<open>
  C3 does not extend to floats, within any tolerance. For first term \<open>2 ^ 1023\<close>, common
  difference \<open>- 2 ^ 1022\<close> and three terms, the product \<open>2 * first_term\<close> of the closed form
  overflows and the closed form is infinite, while the three terms and their direct sum
  are finite. For first term \<open>1\<close>, ratio \<open>2 ^ 512\<close> and two terms, the power
  \<open>common_ratio ** 2\<close> of the closed form overflows and the closed form raises, while the
  two terms and their direct sum are finite.
\<close>

theorem C3_closed_form_sum_is_direct_sum_counterexample:
  "generate_arithmetic_sequence Binary64 (2 ^ 1023) (- (2 ^ 1022)) 3 =
     [Finite (2 ^ 1023), Finite (2 ^ 1022), Finite 0]
   \<and> py_sum Binary64 [Finite (2 ^ 1023), Finite (2 ^ 1022), Finite 0] =
       Finite (2 ^ 1023 + 2 ^ 1022)
   \<and> calculate_arithmetic_sum Binary64 (2 ^ 1023) (- (2 ^ 1022)) 3 = PosInf
   \<and> generate_geometric_sequence Binary64 1 (2 ^ 512) 2 = Inr [Finite 1, Finite (2 ^ 512)]
   \<and> py_sum Binary64 [Finite 1, Finite (2 ^ 512)] = Finite (1 + 2 ^ 512)
   \<and> calculate_geometric_sum Binary64 1 (2 ^ 512) 2 = Inl (OverflowError range_error)"
proof (intro conjI)
  show "generate_arithmetic_sequence Binary64 (2 ^ 1023) (- (2 ^ 1022)) 3 =
     [Finite (2 ^ 1023), Finite (2 ^ 1022), Finite 0]"
    by (simp add: generate_arithmetic_sequence_def py_range_def upt_rec float_of_int_def
        to_float_def overflow_threshold_def)
  show "py_sum Binary64 [Finite (2 ^ 1023), Finite (2 ^ 1022), Finite 0] =
       Finite (2 ^ 1023 + 2 ^ 1022)"
    by (simp add: py_sum_def to_float_def overflow_threshold_def)
  show "calculate_arithmetic_sum Binary64 (2 ^ 1023) (- (2 ^ 1022)) 3 = PosInf"
    by (simp add: calculate_arithmetic_sum_def float_of_int_def to_float_def
        overflow_threshold_def)
  show "generate_geometric_sequence Binary64 1 (2 ^ 512) 2 = Inr [Finite 1, Finite (2 ^ 512)]"
    by (simp add: generate_geometric_sequence_def py_range_def upt_rec py_pow_def to_float_def
        overflow_threshold_def)
  show "py_sum Binary64 [Finite 1, Finite (2 ^ 512)] = Finite (1 + 2 ^ 512)"
    by (simp add: py_sum_def to_float_def overflow_threshold_def)
  show "calculate_geometric_sum Binary64 1 (2 ^ 512) 2 = Inl (OverflowError range_error)"
    by (simp add: calculate_geometric_sum_def py_pow_def overflow_threshold_def)
qed

text \<open>A division by anything but zero returns, and \<open>1 - r\<close> is not zero unless \<open>r\<close> is one.\<close>

lemma fdiv_returns: "y \<noteq> Finite 0 \<Longrightarrow> \<exists>v. fdiv ar x y = Inr v"
  by (cases x; cases y) simp_all

lemma one_minus_not_zero:
  assumes "r \<noteq> 1"
  shows "fsub ar (Finite 1) (Finite r) \<noteq> Finite 0"
  using assms by (simp add: fsub_def to_float_def)

lemma calculate_geometric_sum_no_zero_division:
  "calculate_geometric_sum ar a r n \<noteq> Inl (ZeroDivisionError msg)"
proof (cases "n \<le> 0 \<or> r = 1")
  case True
  then show ?thesis
    by (auto simp: calculate_geometric_sum_def)
next
  case False
  then have n: "0 < n" and r: "r \<noteq> 1" by auto
  from n have p: "py_pow ar r n = (if overflows ar (r ^ nat n)
      then Inl (OverflowError range_error) else Inr (Finite (r ^ nat n)))"
    using py_pow_nat [of ar r "nat n"] by simp
  show ?thesis
  proof (cases "overflows ar (r ^ nat n)")
    case True
    with n r p show ?thesis
      by (simp add: calculate_geometric_sum_def)
  next
    case False
    from r obtain v where "fdiv ar (fmul ar (Finite a) (fsub ar (Finite 1) (Finite (r ^ nat n))))
        (fsub ar (Finite 1) (Finite r)) = Inr v"
      using fdiv_returns [OF one_minus_not_zero] by blast
    with False n r p show ?thesis
      by (simp add: calculate_geometric_sum_def)
  qed
qed

text \<open>
  C4. For every term count \<open>n > 0\<close>, \<open>calculate_geometric_sum\<close> returns \<open>n * first_term\<close> when
  the common ratio is \<open>1\<close>. Otherwise, when the power \<open>common_ratio ** n\<close> does not
  overflow, it returns the result of dividing \<open>first_term * (1 - common_ratio ** n)\<close> by
  \<open>1 - common_ratio\<close>, which over exact arithmetic is the number
  \<open>first_term * (1 - common_ratio ^ n) / (1 - common_ratio)\<close>; when the power overflows, it
  raises \<^verbatim>\<open>OverflowError\<close>. The division is on the branch where the common ratio is not
  \<open>1\<close>, and for no input does the function raise \<^verbatim>\<open>ZeroDivisionError\<close>.
\<close>

theorem C4_geometric_sum_branches:
  "(0 < n \<and> r = 1 \<longrightarrow>
      calculate_geometric_sum ar a r n = Inr (fmul ar (float_of_int n) (Finite a)))
   \<and> (0 < n \<and> r \<noteq> 1 \<and> \<not> overflows ar (r ^ nat n) \<longrightarrow>
        calculate_geometric_sum ar a r n =
          fdiv ar (fmul ar (Finite a) (fsub ar (Finite 1) (Finite (r ^ nat n))))
            (fsub ar (Finite 1) (Finite r)))
   \<and> (0 < n \<and> r \<noteq> 1 \<and> overflows ar (r ^ nat n) \<longrightarrow>
        calculate_geometric_sum ar a r n = Inl (OverflowError range_error))
   \<and> (0 < n \<longrightarrow>
        calculate_geometric_sum Exact a r n =
          Inr (Finite (if r = 1 then of_int n * a else a * (1 - r ^ nat n) / (1 - r))))
   \<and> (\<forall>msg. calculate_geometric_sum ar a r n \<noteq> Inl (ZeroDivisionError msg))"
proof (intro conjI impI allI)
  assume "0 < n \<and> r = 1"
  then show "calculate_geometric_sum ar a r n = Inr (fmul ar (float_of_int n) (Finite a))"
    by (simp add: calculate_geometric_sum_def)
next
  assume h: "0 < n \<and> r \<noteq> 1 \<and> \<not> overflows ar (r ^ nat n)"
  then have "py_pow ar r n = Inr (Finite (r ^ nat n))"
    using py_pow_nat [of ar r "nat n"] by simp
  with h show "calculate_geometric_sum ar a r n =
      fdiv ar (fmul ar (Finite a) (fsub ar (Finite 1) (Finite (r ^ nat n))))
        (fsub ar (Finite 1) (Finite r))"
    by (simp add: calculate_geometric_sum_def)
next
  assume h: "0 < n \<and> r \<noteq> 1 \<and> overflows ar (r ^ nat n)"
  then have "py_pow ar r n = Inl (OverflowError range_error)"
    using py_pow_nat [of ar r "nat n"] by simp
  with h show "calculate_geometric_sum ar a r n = Inl (OverflowError range_error)"
    by (simp add: calculate_geometric_sum_def)
next
  assume "0 < n"
  then show "calculate_geometric_sum Exact a r n =
      Inr (Finite (if r = 1 then of_int n * a else a * (1 - r ^ nat n) / (1 - r)))"
    by (rule calculate_geometric_sum_Exact)
next
  fix msg
  show "calculate_geometric_sum ar a r n \<noteq> Inl (ZeroDivisionError msg)"
    by (rule calculate_geometric_sum_no_zero_division)
qed

theorem C4_geometric_sum_branches_witness:
  "calculate_geometric_sum Binary64 7 1 5 = Inr (Finite 35)
   \<and> \<not> overflows Binary64 (2 ^ nat 8)
   \<and> calculate_geometric_sum Binary64 1 2 8 =
       fdiv Binary64 (fmul Binary64 (Finite 1) (fsub Binary64 (Finite 1) (Finite (2 ^ nat 8))))
         (fsub Binary64 (Finite 1) (Finite 2))
   \<and> calculate_geometric_sum Binary64 1 2 8 = Inr (Finite 255)
   \<and> overflows Binary64 (2 ^ nat 1024)
   \<and> calculate_geometric_sum Binary64 1 2 1024 = Inl (OverflowError range_error)
   \<and> calculate_geometric_sum Exact 1 2 8 = Inr (Finite 255)
   \<and> calculate_geometric_sum Binary64 7 1 5 \<noteq> Inl (ZeroDivisionError ''float division by zero'')"
proof -
  have o1: "\<not> overflows Binary64 (2 ^ nat 8)"
    by (simp add: overflow_threshold_def)
  have o2: "overflows Binary64 (2 ^ nat 1024)"
    by (simp add: overflow_threshold_def)
  have e1: "calculate_geometric_sum Binary64 7 1 5 = Inr (Finite 35)"
    using C4_geometric_sum_branches [of 5 1 Binary64 7]
    by (simp add: float_of_int_def to_float_def overflow_threshold_def)
  have e2: "calculate_geometric_sum Binary64 1 2 8 =
       fdiv Binary64 (fmul Binary64 (Finite 1) (fsub Binary64 (Finite 1) (Finite (2 ^ nat 8))))
         (fsub Binary64 (Finite 1) (Finite 2))"
    using C4_geometric_sum_branches [of 8 2 Binary64 1] o1 by simp
  have e3: "calculate_geometric_sum Binary64 1 2 8 = Inr (Finite 255)"
    by (simp add: calculate_geometric_sum_def py_pow_def fsub_def to_float_def
        overflow_threshold_def)
  have e4: "calculate_geometric_sum Binary64 1 2 1024 = Inl (OverflowError range_error)"
    using C4_geometric_sum_branches [of 1024 2 Binary64 1] o2 by simp
  have e5: "calculate_geometric_sum Exact 1 2 8 = Inr (Finite 255)"
    using C4_geometric_sum_branches [of 8 2 Exact 1] by (simp add: fsub_def)
  have e6: "calculate_geometric_sum Binary64 7 1 5
      \<noteq> Inl (ZeroDivisionError ''float division by zero'')"
    using C4_geometric_sum_branches [of 5 1 Binary64 7] by blast
  from o1 o2 e1 e2 e3 e4 e5 e6 show ?thesis
    by (intro conjI)
qed

text \<open>
  C4 does not hold for all finite floats: with first term \<open>1\<close>, ratio \<open>10\<close> and \<open>309\<close>
  terms the ratio is not \<open>1\<close>, the power \<open>10 ** 309\<close> overflows, and the function raises
  instead of returning \<open>first_term * (1 - common_ratio ** n) / (1 - common_ratio)\<close>.
\<close>

theorem C4_geometric_sum_branches_counterexample:
  "overflows Binary64 (10 ^ 309)
   \<and> calculate_geometric_sum Binary64 1 10 309 = Inl (OverflowError range_error)
   \<and> \<not> (\<exists>v. calculate_geometric_sum Binary64 1 10 309 = Inr v)"
proof -
  have o: "overflows Binary64 (10 ^ 309)"
    by (simp add: overflow_threshold_def)
  have "py_pow Binary64 10 (int 309) = Inl (OverflowError range_error)"
    using o by (simp only: py_pow_nat if_True)
  then have "calculate_geometric_sum Binary64 1 10 309 = Inl (OverflowError range_error)"
    by (simp add: calculate_geometric_sum_def)
  with o show ?thesis by simp
qed

section \<open>Properties of the display formatter\<close>

text \<open>
  The formatting loop appends one rendered term per term as long as the terms are finite,
  and raises at the first term that is not.
\<close>

lemma format_loop_finite:
  "format_loop fmt (map Finite ys) acc =
     Inr (acc @ map (\<lambda>t. if t = of_int (truncation t) then str_int (truncation t)
                          else fmt (Finite t)) ys)"
  by (induction ys arbitrary: acc) (simp_all add: py_int_def float_of_int_def)


lemma finite_list: "(\<forall>x\<in>set xs. is_finite x) \<Longrightarrow> \<exists>ys. xs = map Finite ys"
proof (induction xs)
  case Nil
  then show ?case by simp
next
  case (Cons x xs)
  then obtain ys where "xs = map Finite ys" by auto
  moreover from Cons.prems obtain v where "x = Finite v" by (cases x) simp_all
  ultimately have "x # xs = map Finite (v # ys)" by simp
  then show ?case by (rule exI)
qed

lemma format_sequence_display_finite:
  "format_sequence_display fmt (map Finite ys) =
     (if ys = [] then Inr ''No terms to display''
      else Inr (join '', ''
                  (map (\<lambda>t. if t = of_int (truncation t) then str_int (truncation t)
                             else fmt (Finite t)) ys)))"
  by (simp add: format_sequence_display_def format_loop_finite)

lemma format_sequence_display_returns:
  assumes "\<forall>x\<in>set xs. is_finite x"
  shows "\<exists>f. format_sequence_display fmt xs = Inr f"
proof -
  from assms obtain ys where "xs = map Finite ys"
    using finite_list by blast
  then show ?thesis
    by (simp add: format_sequence_display_finite)
qed


lemma app_format_sequence_display_eq:
  "app_format_sequence_display fmt xs = format_sequence_display fmt xs"
  by (simp add: format_sequence_display_def app_format_sequence_display_def app_format_loop_eq)





lemma format_one_two_three:
  "format_sequence_display fmt [Finite 1, Finite 2, Finite 3] = Inr ''1, 2, 3''"
  using format_sequence_display_finite [of fmt "[1, 2, 3]"]
  by (simp add: truncation_def str_int_def str_nat.simps digit_char_def)

text \<open>Values of \<open>format_6g\<close>, for evaluating the functions on concrete inputs.\<close>

lemma format_6g_1: "format_6g_finite 1 = ''1''"
  unfolding format_6g_finite_def Let_def decimal_exponent_def pow10_def round_half_even_def
  by (simp add: ndigits.simps str_nat.simps digit_char_def strip_zeros_def with_point_def)

lemma format_6g_2: "format_6g_finite 2 = ''2''"
  unfolding format_6g_finite_def Let_def decimal_exponent_def pow10_def round_half_even_def
  by (simp add: ndigits.simps str_nat.simps digit_char_def strip_zeros_def with_point_def)

lemma format_6g_6: "format_6g_finite 6 = ''6''"
  unfolding format_6g_finite_def Let_def decimal_exponent_def pow10_def round_half_even_def
  by (simp add: ndigits.simps str_nat.simps digit_char_def strip_zeros_def with_point_def)

lemma format_6g_255: "format_6g_finite 255 = ''255''"
  unfolding format_6g_finite_def Let_def decimal_exponent_def pow10_def round_half_even_def
  by (simp add: ndigits.simps str_nat.simps digit_char_def strip_zeros_def with_point_def)





section \<open>Properties of the page script\<close>

lemma starts_with_append: "starts_with s (s @ q)"
  by (induction s) simp_all

lemma contains_prefix: "contains s (s @ q)"
proof (cases "s @ q")
  case Nil
  then show ?thesis by simp
next
  case (Cons c t)
  have "starts_with s (s @ q)" by (rule starts_with_append)
  with Cons show ?thesis by simp
qed

lemma contains_append_left: "contains s t \<Longrightarrow> contains s (p @ t)"
  by (induction p) simp_all

lemma contains_middle: "contains s (p @ s @ q)"
  by (rule contains_append_left) (rule contains_prefix)

lemma downloads_append: "downloads (xs @ ys) = downloads xs @ downloads ys"
  by (induction xs rule: downloads.induct) simp_all

lemma shows_code_append: "shows_code (xs @ ys) = shows_code xs @ shows_code ys"
  by (induction xs rule: shows_code.induct) simp_all

lemma reports_error_append: "reports_error (xs @ ys) = (reports_error xs \<or> reports_error ys)"
  by (induction xs rule: reports_error.induct) simp_all

text \<open>What the two stages of rendering contribute.\<close>

lemma render_parameters_events:
  "downloads (render_parameters fmt ty a s n) = []"
  "shows_code (render_parameters fmt ty a s n) = []"
  "\<not> reports_error (render_parameters fmt ty a s n)"
  by (simp_all add: render_parameters_def)

lemma render_results_events:
  "downloads (render_results ar fmt ty a s n sequence calculated_sum f) =
     [sequence_text fmt ty a s n f calculated_sum]"
  "shows_code (render_results ar fmt ty a s n sequence calculated_sum f) = [f]"
  "\<not> reports_error (render_results ar fmt ty a s n sequence calculated_sum f)"
  by (simp_all add: render_results_def)

lemma app_render_parameters_events:
  "downloads (app_render_parameters fmt a d n) = []"
  "shows_code (app_render_parameters fmt a d n) = []"
  "\<not> reports_error (app_render_parameters fmt a d n)"
  by (simp_all add: app_render_parameters_def)

lemma app_render_results_events:
  "downloads (app_render_results ar fmt a d n sequence f) = [app_sequence_text fmt a d n f]"
  "shows_code (app_render_results ar fmt a d n sequence f) = [f]"
  "\<not> reports_error (app_render_results ar fmt a d n sequence f)"
  by (simp_all add: app_render_results_def)

text \<open>The sequence that the generation step computes.\<close>

lemma generate_geometric_sequence_length:
  assumes "generate_geometric_sequence ar a r n = Inr g"
  shows "length g = nat n"
proof (cases "\<forall>k<nat n. \<not> overflows ar (r ^ k)")
  case True
  then have "generate_geometric_sequence ar a r n =
      Inr (map (\<lambda>k. fmul ar (Finite a) (Finite (r ^ k))) [0..<nat n])"
    by (rule generate_geometric_sequence_returns)
  with assms show ?thesis by auto
next
  case False
  then obtain k where "k < nat n" and "overflows ar (r ^ k)" by blast
  then have "generate_geometric_sequence ar a r n = Inl (OverflowError range_error)"
    by (rule generate_geometric_sequence_raises)
  with assms show ?thesis by simp
qed

lemma compute_sequence_returned:
  assumes "compute_sequence ar ty a s n = Inr (sequence, calculated_sum)"
  shows "length sequence = nat n"
    and "ty = Arithmetic \<longrightarrow> sequence = generate_arithmetic_sequence ar a s n
           \<and> calculated_sum = calculate_arithmetic_sum ar a s n"
    and "ty = Geometric \<longrightarrow> generate_geometric_sequence ar a s n = Inr sequence
           \<and> calculate_geometric_sum ar a s n = Inr calculated_sum"
proof -
  show 2: "ty = Arithmetic \<longrightarrow> sequence = generate_arithmetic_sequence ar a s n
      \<and> calculated_sum = calculate_arithmetic_sum ar a s n"
    using assms by (auto simp: compute_sequence_def)
  show 3: "ty = Geometric \<longrightarrow> generate_geometric_sequence ar a s n = Inr sequence
      \<and> calculate_geometric_sum ar a s n = Inr calculated_sum"
    using assms by (auto simp: compute_sequence_def split: sum.splits)
  show "length sequence = nat n"
  proof (cases ty)
    case Arithmetic
    with 2 show ?thesis
      by (simp add: generate_arithmetic_sequence_map)
  next
    case Geometric
    with 3 have "generate_geometric_sequence ar a s n = Inr sequence" by simp
    then show ?thesis
      by (rule generate_geometric_sequence_length)
  qed
qed

lemma compute_sequence_Exact:
  assumes "0 < n"
  shows "\<exists>sequence calculated_sum.
           compute_sequence Exact ty a s n = Inr (sequence, calculated_sum)
         \<and> (\<forall>x\<in>set sequence. is_finite x)"
proof (cases ty)
  case Arithmetic
  then show ?thesis
    by (simp add: compute_sequence_def generate_arithmetic_sequence_Exact)
next
  case Geometric
  with assms show ?thesis
    by (simp add: compute_sequence_def generate_geometric_sequence_Exact
        calculate_geometric_sum_Exact)
qed

lemma app_generate_arithmetic_sequence_Exact_finite:
  "\<forall>x\<in>set (app_generate_arithmetic_sequence Exact a d n). is_finite x"
  by (simp add: app_generate_arithmetic_sequence_Exact)

text \<open>The three ways in which the generation step ends.\<close>

lemma generation_step_compute_error:
  assumes "compute_sequence ar ty a s n = Inl e"
  shows "generation_step ar fmt ty a s n = [Error (error_message e)]"
  using assms by (simp add: generation_step_def)

lemma generation_step_format_error:
  assumes "compute_sequence ar ty a s n = Inr (sequence, calculated_sum)"
    and "sequence \<noteq> []" and "format_sequence_display fmt sequence = Inl e"
  shows "generation_step ar fmt ty a s n =
           render_parameters fmt ty a s n @ [Error (error_message e)]"
  using assms by (simp add: generation_step_def)

lemma generation_step_success:
  assumes "compute_sequence ar ty a s n = Inr (sequence, calculated_sum)"
    and "sequence \<noteq> []" and "format_sequence_display fmt sequence = Inr f"
  shows "generation_step ar fmt ty a s n =
           render_parameters fmt ty a s n
           @ render_results ar fmt ty a s n sequence calculated_sum f"
  using assms by (simp add: generation_step_def)

lemma app_generation_step_format_error:
  assumes "0 < n"
    and "app_format_sequence_display fmt (app_generate_arithmetic_sequence ar a d n) = Inl e"
  shows "app_generation_step ar fmt a d n =
           app_render_parameters fmt a d n @ [Error (error_message e)]"
proof -
  from assms(1) have "app_generate_arithmetic_sequence ar a d n \<noteq> []"
    by (simp add: app_generate_arithmetic_sequence_map)
  with assms(2) show ?thesis
    by (simp add: app_generation_step_def Let_def)
qed

lemma app_generation_step_success:
  assumes "0 < n"
    and "app_format_sequence_display fmt (app_generate_arithmetic_sequence ar a d n) = Inr f"
  shows "app_generation_step ar fmt a d n =
           app_render_parameters fmt a d n
           @ app_render_results ar fmt a d n (app_generate_arithmetic_sequence ar a d n) f"
proof -
  from assms(1) have "app_generate_arithmetic_sequence ar a d n \<noteq> []"
    by (simp add: app_generate_arithmetic_sequence_map)
  with assms(2) show ?thesis
    by (simp add: app_generation_step_def Let_def)
qed

lemma main_generates:
  assumes "0 < n" and "n \<le> 1000" and "update_generate_clicked b gc"
  shows "fst (main ar fmt ty a s n b gc) = generation_step ar fmt ty a s n"
    and "fst (app_main ar fmt a s n b gc) = app_generation_step ar fmt a s n"
  using assms by (simp_all add: main_def app_main_def Let_def)

text \<open>A run whose generation step is switched on, by the outcome of the step.\<close>

lemma main_compute_error:
  assumes "0 < n" and "n \<le> 1000" and "update_generate_clicked b gc"
    and "compute_sequence ar ty a s n = Inl e"
  shows "fst (main ar fmt ty a s n b gc) = [Error (error_message e)]"
  using assms by (simp add: main_generates generation_step_compute_error)

lemma main_success:
  assumes "0 < n" and "n \<le> 1000" and "update_generate_clicked b gc"
    and "compute_sequence ar ty a s n = Inr (sequence, calculated_sum)"
    and "format_sequence_display fmt sequence = Inr f"
  shows "downloads (fst (main ar fmt ty a s n b gc)) =
           [sequence_text fmt ty a s n f calculated_sum]"
    and "shows_code (fst (main ar fmt ty a s n b gc)) = [f]"
    and "\<not> reports_error (fst (main ar fmt ty a s n b gc))"
proof -
  from assms(1,4) have "sequence \<noteq> []"
    using compute_sequence_returned(1) [of ar ty a s n sequence calculated_sum] by auto
  with assms have m: "fst (main ar fmt ty a s n b gc) =
      render_parameters fmt ty a s n
      @ render_results ar fmt ty a s n sequence calculated_sum f"
    by (simp add: main_generates generation_step_success)
  show "downloads (fst (main ar fmt ty a s n b gc)) =
      [sequence_text fmt ty a s n f calculated_sum]"
    by (simp add: m downloads_append render_parameters_events render_results_events)
  show "shows_code (fst (main ar fmt ty a s n b gc)) = [f]"
    by (simp add: m shows_code_append render_parameters_events render_results_events)
  show "\<not> reports_error (fst (main ar fmt ty a s n b gc))"
    by (simp add: m reports_error_append render_parameters_events render_results_events)
qed


lemma app_main_success:
  assumes "0 < n" and "n \<le> 1000" and "update_generate_clicked b gc"
    and "app_format_sequence_display fmt (app_generate_arithmetic_sequence ar a d n) = Inr f"
  shows "downloads (fst (app_main ar fmt a d n b gc)) = [app_sequence_text fmt a d n f]"
    and "shows_code (fst (app_main ar fmt a d n b gc)) = [f]"
    and "\<not> reports_error (fst (app_main ar fmt a d n b gc))"
proof -
  from assms have m: "fst (app_main ar fmt a d n b gc) =
      app_render_parameters fmt a d n
      @ app_render_results ar fmt a d n (app_generate_arithmetic_sequence ar a d n) f"
    by (simp add: main_generates app_generation_step_success)
  show "downloads (fst (app_main ar fmt a d n b gc)) = [app_sequence_text fmt a d n f]"
    by (simp add: m downloads_append app_render_parameters_events app_render_results_events)
  show "shows_code (fst (app_main ar fmt a d n b gc)) = [f]"
    by (simp add: m shows_code_append app_render_parameters_events app_render_results_events)
  show "\<not> reports_error (fst (app_main ar fmt a d n b gc))"
    by (simp add: m reports_error_append app_render_parameters_events
        app_render_results_events)
qed


text \<open>
  The script only ever stores \<^verbatim>\<open>True\<close> in the session entry: from a session where the
  entry is absent or \<^verbatim>\<open>True\<close>, every run has its generation step switched on and leaves
  the entry absent or \<^verbatim>\<open>True\<close>.
\<close>

lemma generate_clicked_stays_on:
  assumes "gc \<noteq> Some False"
  shows "update_generate_clicked b gc"
    and "snd (main ar fmt ty a s n b gc) \<noteq> Some False"
    and "snd (app_main ar fmt a s n b gc) \<noteq> Some False"
proof -
  from assms show c: "update_generate_clicked b gc"
    by (cases gc) (simp_all add: update_generate_clicked_def)
  from assms c show "snd (main ar fmt ty a s n b gc) \<noteq> Some False"
    by (simp add: main_def Let_def)
  from assms c show "snd (app_main ar fmt a s n b gc) \<noteq> Some False"
    by (simp add: app_main_def Let_def)
qed

lemma update_generate_clicked_first_run: "update_generate_clicked False None"
  by (simp add: update_generate_clicked_def)

text \<open>The lines of the download text of \<^verbatim>\<open>src/unnamed/part_000\<close>.\<close>

lemma sequence_text_contains:
  "contains (type_name ty @ '' Sequence'') (sequence_text fmt ty a s n f sm)"
  "contains (''First Term: '' @ fmt (Finite a)) (sequence_text fmt ty a s n f sm)"
  "contains ((if ty = Arithmetic then ''Common Difference: '' else ''Common Ratio: '')
       @ fmt (Finite s))
     (sequence_text fmt ty a s n f sm)"
  "contains (''Number of Terms: '' @ str_int n) (sequence_text fmt ty a s n f sm)"
  "contains (''Sequence: '' @ f) (sequence_text fmt ty a s n f sm)"
  "contains (''Sum of Series: '' @ fmt sm) (sequence_text fmt ty a s n f sm)"
proof -
  let ?step = "(if ty = Arithmetic then ''Common Difference: '' else ''Common Ratio: '')
    @ fmt (Finite s)"
  let ?first = "''First Term: '' @ fmt (Finite a)"
  let ?text = "sequence_text fmt ty a s n f sm"
  have 1: "?text = (type_name ty @ '' Sequence'') @ (''\<newline>'' @ ?first
      @ ''\<newline>'' @ ?step @ ''\<newline>'' @ ''Number of Terms: '' @ str_int n @ ''\<newline>''
      @ ''Sequence: '' @ f @ ''\<newline>'' @ ''Sum of Series: '' @ fmt sm @ ''\<newline>'')"
    by (simp add: sequence_text_def)
  have 2: "?text = (type_name ty @ '' Sequence\<newline>'') @ ?first
      @ (''\<newline>'' @ ?step @ ''\<newline>'' @ ''Number of Terms: '' @ str_int n @ ''\<newline>''
      @ ''Sequence: '' @ f @ ''\<newline>'' @ ''Sum of Series: '' @ fmt sm @ ''\<newline>'')"
    by (simp add: sequence_text_def)
  have 3: "?text = (type_name ty @ '' Sequence\<newline>'' @ ?first
      @ ''\<newline>'') @ ?step @ (''\<newline>'' @ ''Number of Terms: '' @ str_int n @ ''\<newline>''
      @ ''Sequence: '' @ f @ ''\<newline>'' @ ''Sum of Series: '' @ fmt sm @ ''\<newline>'')"
    by (simp add: sequence_text_def)
  have 4: "?text = (type_name ty @ '' Sequence\<newline>'' @ ?first
      @ ''\<newline>'' @ ?step @ ''\<newline>'') @ (''Number of Terms: '' @ str_int n)
      @ (''\<newline>'' @ ''Sequence: '' @ f @ ''\<newline>'' @ ''Sum of Series: '' @ fmt sm
      @ ''\<newline>'')"
    by (simp add: sequence_text_def)
  have 5: "?text = (type_name ty @ '' Sequence\<newline>'' @ ?first
      @ ''\<newline>'' @ ?step @ ''\<newline>'' @ ''Number of Terms: '' @ str_int n @ ''\<newline>'')
      @ (''Sequence: '' @ f) @ (''\<newline>'' @ ''Sum of Series: '' @ fmt sm @ ''\<newline>'')"
    by (simp add: sequence_text_def)
  have 6: "?text = (type_name ty @ '' Sequence\<newline>'' @ ?first
      @ ''\<newline>'' @ ?step @ ''\<newline>'' @ ''Number of Terms: '' @ str_int n @ ''\<newline>''
      @ ''Sequence: '' @ f @ ''\<newline>'') @ (''Sum of Series: '' @ fmt sm) @ ''\<newline>''"
    by (simp add: sequence_text_def)
  show "contains (type_name ty @ '' Sequence'') ?text"
    by (subst 1) (rule contains_prefix)
  show "contains ?first ?text"
    by (subst 2) (rule contains_middle)
  show "contains ?step ?text"
    by (subst 3) (rule contains_middle)
  show "contains (''Number of Terms: '' @ str_int n) ?text"
    by (subst 4) (rule contains_middle)
  show "contains (''Sequence: '' @ f) ?text"
    by (subst 5) (rule contains_middle)
  show "contains (''Sum of Series: '' @ fmt sm) ?text"
    by (subst 6) (rule contains_middle)
qed

text \<open>Runs, evaluated: the first run of a session, with the button not pressed.\<close>

lemma str_int_3: "str_int 3 = ''3''"
  by (simp add: str_int_def str_nat.simps digit_char_def)

lemma str_int_8: "str_int 8 = ''8''"
  by (simp add: str_int_def str_nat.simps digit_char_def)

lemma compute_sequence_powers_of_two:
  "compute_sequence Binary64 Geometric 1 2 8 =
     Inr ([Finite 1, Finite 2, Finite 4, Finite 8, Finite 16, Finite 32, Finite 64, Finite 128],
          Finite 255)"
  by (simp add: compute_sequence_def generate_geometric_sequence_def py_range_def upt_rec
      py_pow_def calculate_geometric_sum_def fsub_def to_float_def overflow_threshold_def)

lemma format_powers_of_two:
  "format_sequence_display fmt
     [Finite 1, Finite 2, Finite 4, Finite 8, Finite 16, Finite 32, Finite 64, Finite 128] =
     Inr ''1, 2, 4, 8, 16, 32, 64, 128''"
  using format_sequence_display_finite [of fmt "[1, 2, 4, 8, 16, 32, 64, 128]"]
  by (simp add: truncation_def str_int_def str_nat.simps digit_char_def)

lemma main_powers_of_two:
  "downloads (fst (main Binary64 format_6g Geometric 1 2 8 False None)) =
     [''Geometric Sequence\<newline>First Term: 1\<newline>Common Ratio: 2\<newline>Number of Terms: 8\<newline>Sequence: 1, 2, 4, 8, 16, 32, 64, 128\<newline>Sum of Series: 255\<newline>'']"
proof -
  have "downloads (fst (main Binary64 format_6g Geometric 1 2 8 False None)) =
      [sequence_text format_6g Geometric 1 2 8 ''1, 2, 4, 8, 16, 32, 64, 128'' (Finite 255)]"
    by (rule main_success(1) [OF _ _ update_generate_clicked_first_run
          compute_sequence_powers_of_two format_powers_of_two]) simp_all
  then show ?thesis
    by (simp add: sequence_text_def format_6g_1 format_6g_2 format_6g_255 str_int_8)
qed

lemma app_sequence_one_two_three:
  "app_generate_arithmetic_sequence Binary64 1 1 3 = [Finite 1, Finite 2, Finite 3]"
  by (simp add: app_generate_arithmetic_sequence_def py_range_def upt_rec float_of_int_def
      to_float_def overflow_threshold_def)

lemma app_main_one_two_three:
  "downloads (fst (app_main Binary64 format_6g 1 1 3 False None)) =
     [''Arithmetic Sequence\<newline>First Term: 1\<newline>Common Difference: 1\<newline>Number of Terms: 3\<newline>Sequence: 1, 2, 3\<newline>'']"
proof -
  have f: "app_format_sequence_display format_6g
      (app_generate_arithmetic_sequence Binary64 1 1 3) = Inr ''1, 2, 3''"
    by (simp only: app_sequence_one_two_three app_format_sequence_display_eq
        format_one_two_three)
  have "downloads (fst (app_main Binary64 format_6g 1 1 3 False None)) =
      [app_sequence_text format_6g 1 1 3 ''1, 2, 3'']"
    by (rule app_main_success(1) [OF _ _ update_generate_clicked_first_run f]) simp_all
  then show ?thesis
    by (simp add: app_sequence_text_def format_6g_1 str_int_3)
qed







text \<open>
  C8. For every successful generation, the text offered for download by
  \<^verbatim>\<open>src/unnamed/part_000\<close> contains the sequence-type label, the first term, the label and
  value of the step (difference or ratio), the term count, the formatted sequence and the
  closed-form series sum. The text offered by \<^verbatim>\<open>src/app.py\<close> consists of the label
  \<^verbatim>\<open>Arithmetic Sequence\<close>, the first term, the common difference, the term count and the
  formatted sequence, and ends there: it has no line for a sum. A generation is successful
  when the sequence and its sum are computed and the sequence is formatted, which over
  exact arithmetic is the case for every term count in \<open>1..1000\<close>; a generation that
  raises offers no download.
\<close>

theorem C8_download_text:
  assumes "0 < n" and "n \<le> 1000" and "update_generate_clicked b gc"
  shows "(\<forall>sequence calculated_sum f.
            compute_sequence ar ty a s n = Inr (sequence, calculated_sum)
            \<and> format_sequence_display fmt sequence = Inr f \<longrightarrow>
              (ty = Arithmetic \<longrightarrow> calculated_sum = calculate_arithmetic_sum ar a s n)
            \<and> (ty = Geometric \<longrightarrow> calculate_geometric_sum ar a s n = Inr calculated_sum)
            \<and> (\<exists>text. downloads (fst (main ar fmt ty a s n b gc)) = [text]
                 \<and> contains (type_name ty @ '' Sequence'') text
                 \<and> contains (''First Term: '' @ fmt (Finite a)) text
                 \<and> contains ((if ty = Arithmetic then ''Common Difference: ''
                               else ''Common Ratio: '') @ fmt (Finite s)) text
                 \<and> contains (''Number of Terms: '' @ str_int n) text
                 \<and> contains (''Sequence: '' @ f) text
                 \<and> contains (''Sum of Series: '' @ fmt calculated_sum) text))
       \<and> (\<forall>f. app_format_sequence_display fmt (app_generate_arithmetic_sequence ar a s n)
                 = Inr f \<longrightarrow>
              downloads (fst (app_main ar fmt a s n b gc)) =
                [''Arithmetic Sequence\<newline>''
                 @ ''First Term: '' @ fmt (Finite a) @ ''\<newline>''
                 @ ''Common Difference: '' @ fmt (Finite s) @ ''\<newline>''
                 @ ''Number of Terms: '' @ str_int n @ ''\<newline>''
                 @ ''Sequence: '' @ f @ ''\<newline>''])
       \<and> (\<forall>e. compute_sequence ar ty a s n = Inl e \<longrightarrow>
              downloads (fst (main ar fmt ty a s n b gc)) = [])
       \<and> (\<forall>sequence calculated_sum e.
              compute_sequence ar ty a s n = Inr (sequence, calculated_sum)
              \<and> format_sequence_display fmt sequence = Inl e \<longrightarrow>
                downloads (fst (main ar fmt ty a s n b gc)) = [])
       \<and> (\<forall>e. app_format_sequence_display fmt (app_generate_arithmetic_sequence ar a s n)
                 = Inl e \<longrightarrow>
              downloads (fst (app_main ar fmt a s n b gc)) = [])
       \<and> (\<exists>sequence calculated_sum f text.
            compute_sequence Exact ty a s n = Inr (sequence, calculated_sum)
          \<and> format_sequence_display fmt sequence = Inr f
          \<and> (ty = Arithmetic \<longrightarrow> calculated_sum = calculate_arithmetic_sum Exact a s n)
          \<and> (ty = Geometric \<longrightarrow> calculate_geometric_sum Exact a s n = Inr calculated_sum)
          \<and> downloads (fst (main Exact fmt ty a s n b gc)) = [text]
          \<and> contains (type_name ty @ '' Sequence'') text
          \<and> contains (''First Term: '' @ fmt (Finite a)) text
          \<and> contains ((if ty = Arithmetic then ''Common Difference: ''
                        else ''Common Ratio: '') @ fmt (Finite s)) text
          \<and> contains (''Number of Terms: '' @ str_int n) text
          \<and> contains (''Sequence: '' @ f) text
          \<and> contains (''Sum of Series: '' @ fmt calculated_sum) text)
       \<and> (\<exists>f. app_format_sequence_display fmt (app_generate_arithmetic_sequence Exact a s n)
                 = Inr f
            \<and> downloads (fst (app_main Exact fmt a s n b gc)) =
                [''Arithmetic Sequence\<newline>''
                 @ ''First Term: '' @ fmt (Finite a) @ ''\<newline>''
                 @ ''Common Difference: '' @ fmt (Finite s) @ ''\<newline>''
                 @ ''Number of Terms: '' @ str_int n @ ''\<newline>''
                 @ ''Sequence: '' @ f @ ''\<newline>''])"
proof (intro conjI allI impI)
  fix sequence calculated_sum f
  assume h: "compute_sequence ar ty a s n = Inr (sequence, calculated_sum)
    \<and> format_sequence_display fmt sequence = Inr f"
  then show "ty = Arithmetic \<Longrightarrow> calculated_sum = calculate_arithmetic_sum ar a s n"
    using compute_sequence_returned(2) [of ar ty a s n sequence calculated_sum] by simp
  from h show "ty = Geometric \<Longrightarrow> calculate_geometric_sum ar a s n = Inr calculated_sum"
    using compute_sequence_returned(3) [of ar ty a s n sequence calculated_sum] by simp
  from assms h have "downloads (fst (main ar fmt ty a s n b gc)) =
      [sequence_text fmt ty a s n f calculated_sum]"
    by (simp add: main_success)
  with sequence_text_contains [where ty = ty and fmt = fmt and a = a and s = s
      and n = n and f = f and sm = calculated_sum]
  show "\<exists>text. downloads (fst (main ar fmt ty a s n b gc)) = [text]
      \<and> contains (type_name ty @ '' Sequence'') text
      \<and> contains (''First Term: '' @ fmt (Finite a)) text
      \<and> contains ((if ty = Arithmetic then ''Common Difference: ''
                    else ''Common Ratio: '') @ fmt (Finite s)) text
      \<and> contains (''Number of Terms: '' @ str_int n) text
      \<and> contains (''Sequence: '' @ f) text
      \<and> contains (''Sum of Series: '' @ fmt calculated_sum) text"
    by blast
next
  fix f
  assume "app_format_sequence_display fmt (app_generate_arithmetic_sequence ar a s n) = Inr f"
  with assms show "downloads (fst (app_main ar fmt a s n b gc)) =
      [''Arithmetic Sequence\<newline>''
       @ ''First Term: '' @ fmt (Finite a) @ ''\<newline>''
       @ ''Common Difference: '' @ fmt (Finite s) @ ''\<newline>''
       @ ''Number of Terms: '' @ str_int n @ ''\<newline>''
       @ ''Sequence: '' @ f @ ''\<newline>'']"
    by (simp add: app_main_success app_sequence_text_def)
next
  fix e
  assume "compute_sequence ar ty a s n = Inl e"
  with assms show "downloads (fst (main ar fmt ty a s n b gc)) = []"
    by (simp add: main_compute_error)
next
  fix sequence calculated_sum e
  assume h: "compute_sequence ar ty a s n = Inr (sequence, calculated_sum)
    \<and> format_sequence_display fmt sequence = Inl e"
  with assms have "sequence \<noteq> []"
    using compute_sequence_returned(1) [of ar ty a s n sequence calculated_sum] by auto
  with assms h show "downloads (fst (main ar fmt ty a s n b gc)) = []"
    by (simp add: main_generates generation_step_format_error downloads_append
        render_parameters_events)
next
  fix e
  assume "app_format_sequence_display fmt (app_generate_arithmetic_sequence ar a s n) = Inl e"
  with assms show "downloads (fst (app_main ar fmt a s n b gc)) = []"
    by (simp add: main_generates app_generation_step_format_error downloads_append
        app_render_parameters_events)
next
  from assms obtain sequence calculated_sum
    where c: "compute_sequence Exact ty a s n = Inr (sequence, calculated_sum)"
      and fin: "\<forall>x\<in>set sequence. is_finite x"
    using compute_sequence_Exact [of n ty a s] by blast
  from fin have "\<exists>f. format_sequence_display fmt sequence = Inr f"
    by (rule format_sequence_display_returns)
  then obtain f where f: "format_sequence_display fmt sequence = Inr f"
    by blast
  from c have ar: "ty = Arithmetic \<longrightarrow> calculated_sum = calculate_arithmetic_sum Exact a s n"
    and ge: "ty = Geometric \<longrightarrow> calculate_geometric_sum Exact a s n = Inr calculated_sum"
    using compute_sequence_returned(2,3) [of Exact ty a s n sequence calculated_sum]
    by simp_all
  from assms c f have d: "downloads (fst (main Exact fmt ty a s n b gc)) =
      [sequence_text fmt ty a s n f calculated_sum]"
    by (simp add: main_success)
  from c f ar ge d sequence_text_contains [where ty = ty and fmt = fmt and a = a and s = s
      and n = n and f = f and sm = calculated_sum]
  show "\<exists>sequence calculated_sum f text.
      compute_sequence Exact ty a s n = Inr (sequence, calculated_sum)
      \<and> format_sequence_display fmt sequence = Inr f
      \<and> (ty = Arithmetic \<longrightarrow> calculated_sum = calculate_arithmetic_sum Exact a s n)
      \<and> (ty = Geometric \<longrightarrow> calculate_geometric_sum Exact a s n = Inr calculated_sum)
      \<and> downloads (fst (main Exact fmt ty a s n b gc)) = [text]
      \<and> contains (type_name ty @ '' Sequence'') text
      \<and> contains (''First Term: '' @ fmt (Finite a)) text
      \<and> contains ((if ty = Arithmetic then ''Common Difference: ''
                    else ''Common Ratio: '') @ fmt (Finite s)) text
      \<and> contains (''Number of Terms: '' @ str_int n) text
      \<and> contains (''Sequence: '' @ f) text
      \<and> contains (''Sum of Series: '' @ fmt calculated_sum) text"
    by blast
next
  have "\<forall>x\<in>set (app_generate_arithmetic_sequence Exact a s n). is_finite x"
    by (rule app_generate_arithmetic_sequence_Exact_finite)
  then have "\<exists>f. format_sequence_display fmt (app_generate_arithmetic_sequence Exact a s n)
      = Inr f"
    by (rule format_sequence_display_returns)
  then obtain g
    where g: "app_format_sequence_display fmt (app_generate_arithmetic_sequence Exact a s n)
      = Inr g"
    by (auto simp: app_format_sequence_display_eq)
  with assms have "downloads (fst (app_main Exact fmt a s n b gc)) =
      [''Arithmetic Sequence\<newline>''
       @ ''First Term: '' @ fmt (Finite a) @ ''\<newline>''
       @ ''Common Difference: '' @ fmt (Finite s) @ ''\<newline>''
       @ ''Number of Terms: '' @ str_int n @ ''\<newline>''
       @ ''Sequence: '' @ g @ ''\<newline>'']"
    by (simp add: app_main_success app_sequence_text_def)
  with g show "\<exists>f. app_format_sequence_display fmt
        (app_generate_arithmetic_sequence Exact a s n) = Inr f
      \<and> downloads (fst (app_main Exact fmt a s n b gc)) =
          [''Arithmetic Sequence\<newline>''
           @ ''First Term: '' @ fmt (Finite a) @ ''\<newline>''
           @ ''Common Difference: '' @ fmt (Finite s) @ ''\<newline>''
           @ ''Number of Terms: '' @ str_int n @ ''\<newline>''
           @ ''Sequence: '' @ f @ ''\<newline>'']"
    by blast
qed

theorem C8_download_text_witness:
  "(0::int) < 8 \<and> (8::int) \<le> 1000 \<and> update_generate_clicked False None
   \<and> compute_sequence Binary64 Geometric 1 2 8 =
       Inr ([Finite 1, Finite 2, Finite 4, Finite 8, Finite 16, Finite 32, Finite 64,
             Finite 128], Finite 255)
   \<and> format_sequence_display format_6g
       [Finite 1, Finite 2, Finite 4, Finite 8, Finite 16, Finite 32, Finite 64, Finite 128] =
       Inr ''1, 2, 4, 8, 16, 32, 64, 128''
   \<and> (\<exists>text. downloads (fst (main Binary64 format_6g Geometric 1 2 8 False None)) = [text]
          \<and> contains (type_name Geometric @ '' Sequence'') text
          \<and> contains (''First Term: '' @ format_6g (Finite 1)) text
          \<and> contains (''Common Ratio: '' @ format_6g (Finite 2)) text
          \<and> contains (''Number of Terms: '' @ str_int 8) text
          \<and> contains (''Sequence: '' @ ''1, 2, 4, 8, 16, 32, 64, 128'') text
          \<and> contains (''Sum of Series: '' @ format_6g (Finite 255)) text)
   \<and> calculate_geometric_sum Binary64 1 2 8 = Inr (Finite 255)
   \<and> downloads (fst (main Binary64 format_6g Geometric 1 2 8 False None)) =
       [''Geometric Sequence\<newline>First Term: 1\<newline>Common Ratio: 2\<newline>Number of Terms: 8\<newline>Sequence: 1, 2, 4, 8, 16, 32, 64, 128\<newline>Sum of Series: 255\<newline>'']"
proof -
  have h1: "(0::int) < 8" and h2: "(8::int) \<le> 1000" by simp_all
  note h3 = update_generate_clicked_first_run
  note c = compute_sequence_powers_of_two
  note f = format_powers_of_two [of format_6g]
  from C8_download_text [OF h1 h2 h3, where ar = Binary64 and ty = Geometric and a = 1
      and s = 2 and fmt = format_6g] c f
  have k: "(Geometric = Arithmetic \<longrightarrow> Finite 255 = calculate_arithmetic_sum Binary64 1 2 8)
    \<and> (Geometric = Geometric \<longrightarrow> calculate_geometric_sum Binary64 1 2 8 = Inr (Finite 255))
    \<and> (\<exists>text. downloads (fst (main Binary64 format_6g Geometric 1 2 8 False None)) = [text]
         \<and> contains (type_name Geometric @ '' Sequence'') text
         \<and> contains (''First Term: '' @ format_6g (Finite 1)) text
         \<and> contains ((if Geometric = Arithmetic then ''Common Difference: ''
                       else ''Common Ratio: '') @ format_6g (Finite 2)) text
         \<and> contains (''Number of Terms: '' @ str_int 8) text
         \<and> contains (''Sequence: '' @ ''1, 2, 4, 8, 16, 32, 64, 128'') text
         \<and> contains (''Sum of Series: '' @ format_6g (Finite 255)) text)"
    by blast
  then have e: "calculate_geometric_sum Binary64 1 2 8 = Inr (Finite 255)"
    by blast
  from k obtain artifact
    where d: "downloads (fst (main Binary64 format_6g Geometric 1 2 8 False None)) = [artifact]"
      and k1: "contains (type_name Geometric @ '' Sequence'') artifact"
      and k2: "contains (''First Term: '' @ format_6g (Finite 1)) artifact"
      and k3: "contains ((if Geometric = Arithmetic then ''Common Difference: ''
                          else ''Common Ratio: '') @ format_6g (Finite 2)) artifact"
      and k4: "contains (''Number of Terms: '' @ str_int 8) artifact"
      and k5: "contains (''Sequence: '' @ ''1, 2, 4, 8, 16, 32, 64, 128'') artifact"
      and k6: "contains (''Sum of Series: '' @ format_6g (Finite 255)) artifact"
    by blast
  have "(if Geometric = Arithmetic then ''Common Difference: '' else ''Common Ratio: '')
      = ''Common Ratio: ''"
    by simp
  with k3 have k3': "contains (''Common Ratio: '' @ format_6g (Finite 2)) artifact"
    by (simp only:)
  from d k1 k2 k3' k4 k5 k6
  have "\<exists>text. downloads (fst (main Binary64 format_6g Geometric 1 2 8 False None)) = [text]
          \<and> contains (type_name Geometric @ '' Sequence'') text
          \<and> contains (''First Term: '' @ format_6g (Finite 1)) text
          \<and> contains (''Common Ratio: '' @ format_6g (Finite 2)) text
          \<and> contains (''Number of Terms: '' @ str_int 8) text
          \<and> contains (''Sequence: '' @ ''1, 2, 4, 8, 16, 32, 64, 128'') text
          \<and> contains (''Sum of Series: '' @ format_6g (Finite 255)) text"
    by blast
  with h1 h2 h3 c f e main_powers_of_two show ?thesis
    by (intro conjI)
qed

text \<open>
  C8 does not hold of \<^verbatim>\<open>src/app.py\<close> as a statement about the series sum: for first
  term \<open>1\<close>, common difference \<open>1\<close> and three terms the sum is \<open>6\<close>, and the text offered
  for download has neither the rendering of \<open>6\<close> nor the word \<^verbatim>\<open>Sum\<close> in it.
\<close>

theorem C8_download_text_counterexample:
  "downloads (fst (app_main Binary64 format_6g 1 1 3 False None)) =
     [''Arithmetic Sequence\<newline>First Term: 1\<newline>Common Difference: 1\<newline>Number of Terms: 3\<newline>Sequence: 1, 2, 3\<newline>'']
   \<and> calculate_arithmetic_sum Binary64 1 1 3 = Finite 6
   \<and> py_sum Binary64 (app_generate_arithmetic_sequence Binary64 1 1 3) = Finite 6
   \<and> format_6g (Finite 6) = ''6''
   \<and> \<not> contains (format_6g (Finite 6))
         ''Arithmetic Sequence\<newline>First Term: 1\<newline>Common Difference: 1\<newline>Number of Terms: 3\<newline>Sequence: 1, 2, 3\<newline>''
   \<and> \<not> contains ''Sum''
         ''Arithmetic Sequence\<newline>First Term: 1\<newline>Common Difference: 1\<newline>Number of Terms: 3\<newline>Sequence: 1, 2, 3\<newline>''"
proof (intro conjI)
  show "downloads (fst (app_main Binary64 format_6g 1 1 3 False None)) =
     [''Arithmetic Sequence\<newline>First Term: 1\<newline>Common Difference: 1\<newline>Number of Terms: 3\<newline>Sequence: 1, 2, 3\<newline>'']"
    by (rule app_main_one_two_three)
  show "calculate_arithmetic_sum Binary64 1 1 3 = Finite 6"
    by (simp add: calculate_arithmetic_sum_def float_of_int_def to_float_def
        overflow_threshold_def)
  show "py_sum Binary64 (app_generate_arithmetic_sequence Binary64 1 1 3) = Finite 6"
    by (simp add: app_sequence_one_two_three py_sum_def to_float_def overflow_threshold_def)
  show "format_6g (Finite 6) = ''6''"
    by (simp add: format_6g_6)
  show "\<not> contains (format_6g (Finite 6))
         ''Arithmetic Sequence\<newline>First Term: 1\<newline>Common Difference: 1\<newline>Number of Terms: 3\<newline>Sequence: 1, 2, 3\<newline>''"
    by (simp add: format_6g_6)
  show "\<not> contains ''Sum''
         ''Arithmetic Sequence\<newline>First Term: 1\<newline>Common Difference: 1\<newline>Number of Terms: 3\<newline>Sequence: 1, 2, 3\<newline>''"
    by simp
qed

end
